theory Spec2Isabelle
  imports Complex_Main
begin

section \<open>Strings, formatted messages and exceptions\<close>

text \<open>
  Python strings are modelled as \<^typ>\<open>string\<close>, a text outside ASCII as its bytes.
  \<open>lower\<close> lowers the ASCII letters: the capitals A to Z go to a to z and every other
  character is kept. It stands for \<open>str.lower()\<close> only where the result is compared with
  ASCII text: the suffix test against \<open>.pbix\<close> and the three hints of \<open>publish_report\<close>.
  There it agrees with Python on every string: the only characters outside ASCII that
  lower to an ASCII letter give \<open>k\<close>, which none of these words has, or an \<open>i\<close> followed by
  a combining dot, where each of these words goes on with a letter. On workspace names
  \<open>str.lower()\<close> is Python's own lowering of Unicode text, which the functions below take
  as the parameter \<open>str_lower\<close>.
\<close>

definition lower_char :: "char \<Rightarrow> char" where
  "lower_char c =
     (case map_of (zip ''ABCDEFGHIJKLMNOPQRSTUVWXYZ'' ''abcdefghijklmnopqrstuvwxyz'') c of
        None \<Rightarrow> c
      | Some d \<Rightarrow> d)"

definition lower :: "string \<Rightarrow> string" where
  "lower s = map lower_char s"

text \<open>
  The JSON object of a response body, read through the keys the scripts use. A key that is
  absent is \<open>None\<close>. \<open>j_error\<close> is the \<open>error\<close> object: \<open>Some None\<close> is an error object
  without a \<open>message\<close>.
\<close>

record workspace =
  ws_id :: string
  ws_name :: string

record artifact =
  art_id :: "string option"
  art_name :: "string option"

record body =
  j_access_token :: "string option"
  j_expires_in :: "int option"
  j_value :: "workspace list option"
  j_id :: "string option"
  j_importState :: "string option"
  j_error :: "string option option"
  j_reports :: "artifact list option"
  j_datasets :: "artifact list option"
  j_url :: "string option"

text \<open>\<open>b.get('error', {}).get('message', dflt)\<close>\<close>

definition error_message :: "body \<Rightarrow> string \<Rightarrow> string" where
  "error_message b dflt = (case j_error b of Some (Some message) \<Rightarrow> message | _ \<Rightarrow> dflt)"

text \<open>
  An f-string is the list of its parts: literal text, and interpolated strings, integers
  and dictionaries. An exception is its class and the parts of its message.
\<close>

datatype part = S string | I int | D body

datatype exn_class =
  Exception | ValueError | FileNotFoundError | TimeoutError | RequestException | KeyError

datatype error = Raise (exn: exn_class) (parts: "part list")

section \<open>The HTTP exchange, the clock and the log\<close>

text \<open>
  The \<open>Retry-After\<close> header is a number of seconds or an HTTP date; \<open>int()\<close> of a date
  raises \<open>ValueError\<close>.
\<close>

datatype header_value = Seconds int | HttpDate string

record response =
  status_code :: int
  retry_after :: "header_value option"
  resp_text :: string
  json :: body

datatype payload =
    NoBody
  | FormData "(string \<times> string) list"
  | Files string string
  | RawData string
  | JsonFileUrl string

record request =
  meth :: string
  url :: string
  params :: "(string \<times> string) list"
  headers :: "(string \<times> string) list"
  payload :: payload

text \<open>
  What \<open>requests\<close> gives back: a response, or a \<open>RequestException\<close> (connection reset,
  timeout). The server answers the \<open>n\<close>-th request of the run, seeing the request.
\<close>

datatype reply = Response response | Fails string

type_synonym server = "nat \<Rightarrow> request \<Rightarrow> reply"

text \<open>
  The world of one run: the clock in seconds, advanced by \<open>time.sleep\<close> only (an HTTP
  exchange takes no time on this clock), the requests sent so far, and the records logged
  at level WARNING.
\<close>

record world =
  clock :: int
  sent :: "request list"
  logged :: "part list list"

definition requests_request :: "server \<Rightarrow> request \<Rightarrow> world \<Rightarrow> reply \<times> world" where
  "requests_request net rq w = (net (length (sent w)) rq, w\<lparr>sent := sent w @ [rq]\<rparr>)"

definition sleep :: "int \<Rightarrow> world \<Rightarrow> error + world" where
  "sleep secs w =
     (if secs < 0 then Inl (Raise ValueError [S ''sleep length must be non-negative''])
      else Inr (w\<lparr>clock := clock w + secs\<rparr>))"

definition warning :: "part list \<Rightarrow> world \<Rightarrow> world" where
  "warning msg w = w\<lparr>logged := logged w @ [msg]\<rparr>"

definition POWER_BI_API_BASE :: string where
  "POWER_BI_API_BASE = ''https://api.powerbi.com/v1.0/myorg''"

section \<open>publish_powerbi_report.py: PowerBIPublisher\<close>

subsection \<open>\<open>_make_request\<close>\<close>

definition max_retries :: nat where
  "max_retries = 3"

definition retry_delay :: int where
  "retry_delay = 2"

text \<open>\<open>int(response.headers.get('Retry-After', retry_delay * (attempt + 1)))\<close>\<close>

definition rate_limit_wait :: "response \<Rightarrow> nat \<Rightarrow> error + int" where
  "rate_limit_wait r attempt =
     (case retry_after r of
        None \<Rightarrow> Inr (retry_delay * (int attempt + 1))
      | Some (Seconds n) \<Rightarrow> Inr n
      | Some (HttpDate d) \<Rightarrow>
          Inl (Raise ValueError [S ''invalid literal for int() with base 10: '', S d]))"

text \<open>
  The body of \<open>for attempt in range(max_retries)\<close>, over the attempt numbers still to
  come; the empty list is the line after the loop.
\<close>

fun make_request_attempts ::
  "server \<Rightarrow> request \<Rightarrow> nat list \<Rightarrow> world \<Rightarrow> (error + response) \<times> world" where
  "make_request_attempts net rq [] w = (Inl (Raise Exception [S ''Max retries exceeded'']), w)"
| "make_request_attempts net rq (attempt # rest) w =
     (case requests_request net rq w of
        (Response r, w1) \<Rightarrow>
          if status_code r = 429 then
            (case rate_limit_wait r attempt of
               Inl e \<Rightarrow> (Inl e, w1)
             | Inr wait_time \<Rightarrow>
                 (let w2 = warning [S ''Rate limited. Waiting '', I wait_time, S '' seconds...''] w1
                  in case sleep wait_time w2 of
                       Inl e \<Rightarrow> (Inl e, w2)
                     | Inr w3 \<Rightarrow> make_request_attempts net rq rest w3))
          else (Inr r, w1)
      | (Fails e, w1) \<Rightarrow>
          if attempt = max_retries - 1 then (Inl (Raise RequestException [S e]), w1)
          else
            (let w2 = warning [S ''Request failed (attempt '', I (int attempt + 1), S ''/'',
                                I (int max_retries), S ''): '', S e] w1
             in case sleep (retry_delay * (int attempt + 1)) w2 of
                  Inl err \<Rightarrow> (Inl err, w2)
                | Inr w3 \<Rightarrow> make_request_attempts net rq rest w3))"

text \<open>\<open>self.headers\<close> of a publisher built with \<open>access_token\<close>, and the request of
  \<open>_make_request(method, endpoint)\<close>.\<close>

definition self_headers :: "string \<Rightarrow> (string \<times> string) list" where
  "self_headers access_token =
     [(''Authorization'', ''Bearer '' @ access_token), (''Content-Type'', ''application/json'')]"

definition api_request :: "string \<Rightarrow> string \<Rightarrow> string \<Rightarrow> request" where
  "api_request access_token method endpoint =
     \<lparr>meth = method, url = POWER_BI_API_BASE @ ''/'' @ endpoint, params = [],
      headers = self_headers access_token, payload = NoBody\<rparr>"

definition make_request ::
  "server \<Rightarrow> string \<Rightarrow> string \<Rightarrow> string \<Rightarrow> world \<Rightarrow> (error + response) \<times> world" where
  "make_request net access_token method endpoint w =
     make_request_attempts net (api_request access_token method endpoint) [0..<max_retries] w"

lemma upt_3: "[0..<3] = [0, 1, 2::nat]"
  by (simp add: upt_rec)

lemma make_request_attempts_returns:
  assumes "net (length (sent w)) rq = Response r" and "status_code r \<noteq> 429"
  shows "make_request_attempts net rq (attempt # rest) w = (Inr r, w\<lparr>sent := sent w @ [rq]\<rparr>)"
  using assms by (simp add: requests_request_def)

text \<open>Time never runs backwards in \<open>_make_request\<close>: it only sleeps.\<close>

lemma make_request_attempts_clock:
  "clock w \<le> clock (snd (make_request_attempts net rq attempts w))"
proof (induction attempts arbitrary: w)
  case Nil
  show ?case by simp
next
  case (Cons attempt rest)
  show ?case
  proof (cases "net (length (sent w)) rq")
    case (Response r)
    show ?thesis
    proof (cases "status_code r = 429")
      case limited: True
      show ?thesis
      proof (cases "rate_limit_wait r attempt")
        case (Inl e)
        with Response limited show ?thesis by (simp add: requests_request_def)
      next
        case (Inr d)
        show ?thesis
        proof (cases "d < 0")
          case True
          with Response limited Inr show ?thesis
            by (simp add: requests_request_def sleep_def warning_def)
        next
          case False
          let ?w = "w\<lparr>sent := sent w @ [rq],
                logged := logged w @ [[S ''Rate limited. Waiting '', I d, S '' seconds...'']],
                clock := clock w + d\<rparr>"
          have "clock ?w \<le> clock (snd (make_request_attempts net rq rest ?w))"
            by (rule Cons.IH)
          with False Response limited Inr show ?thesis
            by (simp add: requests_request_def sleep_def warning_def)
        qed
      qed
    next
      case False
      with Response show ?thesis by (simp add: requests_request_def)
    qed
  next
    case (Fails e)
    show ?thesis
    proof (cases "attempt = max_retries - 1")
      case True
      with Fails show ?thesis by (simp add: requests_request_def)
    next
      case False
      let ?w = "w\<lparr>sent := sent w @ [rq],
                logged := logged w @ [[S ''Request failed (attempt '', I (int attempt + 1), S ''/'',
                                I (int max_retries), S ''): '', S e]],
                clock := clock w + retry_delay * (int attempt + 1)\<rparr>"
      have "clock ?w \<le> clock (snd (make_request_attempts net rq rest ?w))"
        by (rule Cons.IH)
      with False Fails show ?thesis
        by (simp add: requests_request_def sleep_def warning_def retry_delay_def)
    qed
  qed
qed

lemma make_request_clock:
  "make_request net tok m e w = (res, w1) \<Longrightarrow> clock w \<le> clock w1"
  using make_request_attempts_clock[of w net "api_request tok m e" "[0..<max_retries]"]
  by (simp add: make_request_def)

lemma make_request_attempts_sent:
  "length (sent w) \<le> length (sent (snd (make_request_attempts net rq attempts w)))"
proof (induction attempts arbitrary: w)
  case Nil
  show ?case by simp
next
  case (Cons attempt rest)
  have step: "length (sent w) \<le> length (sent (snd (make_request_attempts net rq rest w')))"
    if "length (sent w) \<le> length (sent w')" for w'
    using Cons.IH[of w'] that by simp
  show ?case
    by (auto simp: requests_request_def sleep_def warning_def Let_def
        split: reply.split sum.split intro!: step)
qed

lemma make_request_attempts_failed:
  assumes "net (length (sent w)) rq = Fails x" and "attempt \<noteq> max_retries - 1"
  shows "make_request_attempts net rq (attempt # rest) w =
           make_request_attempts net rq rest
             (w\<lparr>sent := sent w @ [rq],
                logged := logged w @ [[S ''Request failed (attempt '', I (int attempt + 1), S ''/'',
                                        I (int max_retries), S ''): '', S x]],
                clock := clock w + retry_delay * (int attempt + 1)\<rparr>)"
  using assms by (simp add: requests_request_def sleep_def warning_def retry_delay_def)

lemma make_request_attempts_sends:
  "length (sent w) < length (sent (snd (make_request_attempts net rq (attempt # rest) w)))"
proof -
  have step: "length (sent w) < length (sent (snd (make_request_attempts net rq rest w')))"
    if "length (sent w) < length (sent w')" for w'
    using make_request_attempts_sent[of w' net rq rest] that by simp
  show ?thesis
    by (auto simp: requests_request_def sleep_def warning_def Let_def
        split: reply.split sum.split intro!: step)
qed

subsection \<open>\<open>_wait_for_import\<close>\<close>

definition check_interval :: int where
  "check_interval = 5"

text \<open>
  The \<open>while\<close> loop of \<open>_wait_for_import\<close>, from the world at the loop test;
  \<open>start_time\<close> is the clock read before the loop. A missing \<open>id\<close> in the upload's answer
  reaches the endpoint as the text \<open>None\<close>.
\<close>

function wait_for_import_loop ::
  "server \<Rightarrow> string \<Rightarrow> string \<Rightarrow> string \<Rightarrow> int \<Rightarrow> int \<Rightarrow> world \<Rightarrow> (error + body) \<times> world" where
  "wait_for_import_loop net access_token workspace_id import_id timeout start_time w =
     (if clock w - start_time < timeout then
        (case make_request net access_token ''GET''
                (''groups/'' @ workspace_id @ ''/imports/'' @ import_id) w of
           (Inl e, w1) \<Rightarrow> (Inl e, w1)
         | (Inr response, w1) \<Rightarrow>
             if status_code response \<noteq> 200 then
               (Inl (Raise Exception [S ''Failed to check import status: '', S (resp_text response)]), w1)
             else
               (let status = json response; state = j_importState status in
                if state = Some ''Succeeded'' then (Inr status, w1)
                else if state = Some ''Failed'' then
                  (Inl (Raise Exception
                         [S ''Import failed: '', S (error_message status ''Unknown error'')]), w1)
                else
                  (case sleep check_interval w1 of
                     Inl e \<Rightarrow> (Inl e, w1)
                   | Inr w2 \<Rightarrow>
                       wait_for_import_loop net access_token workspace_id import_id timeout start_time w2)))
      else (Inl (Raise TimeoutError [S ''Import timed out after '', I timeout, S '' seconds'']), w))"
  by pat_completeness auto
termination
  apply (relation "measure (\<lambda>(net, tok, ws, imp, timeout, start_time, w).
                     nat (start_time + timeout - clock w))")
   apply simp
  apply (auto simp: sleep_def check_interval_def split: if_splits
              dest!: make_request_clock[OF sym])
  done

definition publisher_wait_for_import ::
  "server \<Rightarrow> string \<Rightarrow> string \<Rightarrow> string \<Rightarrow> int \<Rightarrow> world \<Rightarrow> (error + body) \<times> world" where
  "publisher_wait_for_import net access_token workspace_id import_id timeout w =
     wait_for_import_loop net access_token workspace_id import_id timeout (clock w) w"

subsection \<open>\<open>get_workspace_id\<close>\<close>

text \<open>The \<open>for\<close> loop over the listed workspaces, which both scripts have: the first
  workspace whose lowered name is the lowered name asked for. \<open>str_lower\<close> is Python's
  \<open>str.lower()\<close>, which lowers Unicode text by the tables of the interpreter; the scripts do
  not define it, and it is a parameter here.\<close>

fun match_workspace ::
  "(string \<Rightarrow> string) \<Rightarrow> workspace list \<Rightarrow> string \<Rightarrow> workspace option" where
  "match_workspace str_lower [] workspace_name = None"
| "match_workspace str_lower (ws # rest) workspace_name =
     (if str_lower (ws_name ws) = str_lower workspace_name then Some ws
      else match_workspace str_lower rest workspace_name)"

definition quote :: string where
  "quote = [CHR 0x27]"

definition available_workspaces :: "workspace list \<Rightarrow> part list list" where
  "available_workspaces workspaces =
     [S ''Available workspaces:''] #
     map (\<lambda>ws. [S ''  - '', S (ws_name ws), S '' (ID: '', S (ws_id ws), S '')'']) workspaces"

definition publisher_get_workspace_id ::
  "(string \<Rightarrow> string) \<Rightarrow> server \<Rightarrow> string \<Rightarrow> string \<Rightarrow> world \<Rightarrow> (error + string) \<times> world" where
  "publisher_get_workspace_id str_lower net access_token workspace_name w =
     (case make_request net access_token ''GET'' ''groups'' w of
        (Inl e, w1) \<Rightarrow> (Inl e, w1)
      | (Inr response, w1) \<Rightarrow>
          if status_code response \<noteq> 200 then
            (Inl (Raise Exception [S ''Failed to retrieve workspaces: '', S (resp_text response)]), w1)
          else
            (let workspaces = (case j_value (json response) of None \<Rightarrow> [] | Some v \<Rightarrow> v) in
             case match_workspace str_lower workspaces workspace_name of
               Some workspace \<Rightarrow> (Inr (ws_id workspace), w1)
             | None \<Rightarrow>
                 (Inl (Raise ValueError
                        [S ''Workspace '', S quote, S workspace_name, S quote, S '' not found'']),
                  w1\<lparr>logged := logged w1 @ available_workspaces workspaces\<rparr>)))"

section \<open>Paths and files\<close>

text \<open>
  A path is its string. \<open>pathlib\<close> reads a POSIX path as its components between slashes,
  leaving out empty components and single dots; \<open>name\<close> is the last one. With \<open>i\<close> the
  place of the last dot of the name, \<open>suffix\<close> is \<open>name[i:]\<close> and \<open>stem\<close> is \<open>name[:i]\<close>
  when \<open>0 < i < len(name) - 1\<close>; otherwise the suffix is empty and the stem is the name.
\<close>

fun split_on :: "char \<Rightarrow> string \<Rightarrow> string list" where
  "split_on sep [] = [[]]"
| "split_on sep (c # cs) =
     (if c = sep then [] # split_on sep cs
      else (case split_on sep cs of [] \<Rightarrow> [[c]] | x # xs \<Rightarrow> (c # x) # xs))"

definition path_parts :: "string \<Rightarrow> string list" where
  "path_parts p = filter (\<lambda>part. part \<noteq> [] \<and> part \<noteq> ''.'') (split_on (CHR ''/'') p)"

definition path_name :: "string \<Rightarrow> string" where
  "path_name p = (if path_parts p = [] then [] else last (path_parts p))"

definition rfind_dot :: "string \<Rightarrow> nat option" where
  "rfind_dot name =
     (if CHR ''.'' \<in> set name
      then Some (length name - 1 - length (takeWhile (\<lambda>c. c \<noteq> CHR ''.'') (rev name)))
      else None)"

definition path_suffix :: "string \<Rightarrow> string" where
  "path_suffix p =
     (let name = path_name p in
      case rfind_dot name of
        None \<Rightarrow> []
      | Some i \<Rightarrow> if 0 < i \<and> i < length name - 1 then drop i name else [])"

definition path_stem :: "string \<Rightarrow> string" where
  "path_stem p =
     (let name = path_name p in
      case rfind_dot name of
        None \<Rightarrow> name
      | Some i \<Rightarrow> if 0 < i \<and> i < length name - 1 then take i name else name)"

text \<open>The file system: the size in bytes (\<open>st_size\<close>) of the file at a path, \<open>None\<close> where
  the path does not exist.\<close>

type_synonym filesystem = "string \<Rightarrow> nat option"

text \<open>\<open>sub in s\<close> on strings.\<close>

fun contains :: "string \<Rightarrow> string \<Rightarrow> bool" where
  "contains sub [] = (sub = [])"
| "contains sub (c # cs) = (take (length sub) (c # cs) = sub \<or> contains sub cs)"

subsection \<open>\<open>publish_report\<close>\<close>

definition upload_hints :: "string \<Rightarrow> part list list" where
  "upload_hints error_msg =
     (if contains ''capacity'' (lower error_msg)
      then [[S ''Hint: Workspace may not have sufficient capacity'']]
      else if contains ''permission'' (lower error_msg)
      then [[S ''Hint: Service principal may lack permissions. Required: Workspace Admin/Member'']]
      else if contains ''dataset'' (lower error_msg)
      then [[S ''Hint: Dataset may have issues. Check data source configurations'']]
      else [])"

definition upload_request :: "string \<Rightarrow> string \<Rightarrow> string \<Rightarrow> string \<Rightarrow> request" where
  "upload_request access_token pbix_path workspace_id report_name =
     \<lparr>meth = ''POST'',
      url = POWER_BI_API_BASE @ ''/'' @ ''groups/'' @ workspace_id @
            ''/imports?datasetDisplayName='' @ report_name @ ''&nameConflict=CreateOrOverwrite'',
      params = [],
      headers = [(''Authorization'', ''Bearer '' @ access_token)],
      payload = Files (path_name pbix_path) pbix_path\<rparr>"

definition publish_report ::
  "server \<Rightarrow> filesystem \<Rightarrow> string \<Rightarrow> string \<Rightarrow> string \<Rightarrow> string option \<Rightarrow> world \<Rightarrow>
   (error + body) \<times> world" where
  "publish_report net fs access_token pbix_path workspace_id report_name w =
     (if fs pbix_path = None then
        (Inl (Raise FileNotFoundError [S ''File not found: '', S pbix_path]), w)
      else if lower (path_suffix pbix_path) \<noteq> ''.pbix'' then
        (Inl (Raise ValueError [S ''File must be a .pbix file: '', S pbix_path]), w)
      else
        (let report_name =
               (case report_name of
                  None \<Rightarrow> path_stem pbix_path
                | Some n \<Rightarrow> if n = [] then path_stem pbix_path else n)
         in case requests_request net
                   (upload_request access_token pbix_path workspace_id report_name) w of
              (Fails e, w1) \<Rightarrow> (Inl (Raise RequestException [S e]), w1)
            | (Response response, w1) \<Rightarrow>
                if status_code response \<notin> set [200, 202] then
                  (let error_msg = error_message (json response) (resp_text response) in
                   (Inl (Raise Exception [S ''Publish failed: '', S error_msg]),
                    w1\<lparr>logged := logged w1 @ upload_hints error_msg\<rparr>))
                else
                  (let result = json response;
                       import_id = (case j_id result of None \<Rightarrow> ''None'' | Some i \<Rightarrow> i)
                   in case publisher_wait_for_import net access_token workspace_id import_id 600 w1 of
                        (Inl e, w2) \<Rightarrow> (Inl e, w2)
                      | (Inr status, w2) \<Rightarrow>
                          if j_importState status = Some ''Succeeded'' then (Inr status, w2)
                          else
                            (Inl (Raise Exception
                                   [S ''Import failed: '', S (error_message status ''Unknown error'')]),
                             w2))))"

section \<open>powerbi_publisher.py: PowerBIAuth and PowerBIClient\<close>

subsection \<open>\<open>PowerBIAuth.get_token\<close>\<close>

record auth =
  tenant_id :: string
  client_id :: string
  client_secret :: string
  access_token :: "string option"
  token_expiry :: int

definition POWER_BI_SCOPE :: string where
  "POWER_BI_SCOPE = ''https://analysis.windows.net/powerbi/api/.default''"

definition token_request :: "auth \<Rightarrow> request" where
  "token_request a =
     \<lparr>meth = ''POST'',
      url = ''https://login.microsoftonline.com/'' @ tenant_id a @ ''/oauth2/v2.0/token'',
      params = [],
      headers = [],
      payload = FormData [(''grant_type'', ''client_credentials''), (''client_id'', client_id a),
                          (''client_secret'', client_secret a), (''scope'', POWER_BI_SCOPE)]\<rparr>"

text \<open>
  The test \<open>self.access_token and time.time() < self.token_expiry - 60\<close>: the token it lets
  through. \<open>None\<close> and the empty string are false in Python.
\<close>

definition cached_token :: "auth \<Rightarrow> int \<Rightarrow> string option" where
  "cached_token a now =
     (case access_token a of
        None \<Rightarrow> None
      | Some t \<Rightarrow> if t \<noteq> [] \<and> now < token_expiry a - 60 then Some t else None)"

text \<open>\<open>token_data.get("expires_in", 3600)\<close>\<close>

definition expires_in :: "body \<Rightarrow> int" where
  "expires_in token_data = (case j_expires_in token_data of None \<Rightarrow> 3600 | Some n \<Rightarrow> n)"

definition get_token :: "server \<Rightarrow> auth \<Rightarrow> world \<Rightarrow> (error + string) \<times> auth \<times> world" where
  "get_token net a w =
     (case cached_token a (clock w) of
        Some t \<Rightarrow> (Inr t, a, w)
      | None \<Rightarrow>
          (case requests_request net (token_request a) w of
             (Fails e, w1) \<Rightarrow> (Inl (Raise RequestException [S e]), a, w1)
           | (Response response, w1) \<Rightarrow>
               if status_code response \<noteq> 200 then
                 (Inl (Raise Exception [S ''Authentication failed: '', S (resp_text response)]), a, w1)
               else
                 (let token_data = json response in
                  case j_access_token token_data of
                    None \<Rightarrow> (Inl (Raise KeyError [S ''access_token'']), a, w1)
                  | Some t \<Rightarrow>
                      (Inr t,
                       a\<lparr>access_token := Some t, token_expiry := clock w1 + expires_in token_data\<rparr>,
                       w1))))"

subsection \<open>\<open>PowerBIClient._request\<close> and the workspaces\<close>

text \<open>\<open>_request(method, endpoint, params=..., json=...)\<close>; the URL has no slash between the
  base and the endpoint.\<close>

definition client_request ::
  "server \<Rightarrow> string \<Rightarrow> string \<Rightarrow> (string \<times> string) list \<Rightarrow> payload \<Rightarrow> auth \<Rightarrow> world \<Rightarrow>
   (error + response) \<times> auth \<times> world" where
  "client_request net method endpoint ps pl a w =
     (case get_token net a w of
        (Inl e, a1, w1) \<Rightarrow> (Inl e, a1, w1)
      | (Inr t, a1, w1) \<Rightarrow>
          (case requests_request net
                  \<lparr>meth = method, url = POWER_BI_API_BASE @ endpoint, params = ps,
                   headers = [(''Authorization'', ''Bearer '' @ t)], payload = pl\<rparr> w1 of
             (Fails e, w2) \<Rightarrow> (Inl (Raise RequestException [S e]), a1, w2)
           | (Response response, w2) \<Rightarrow> (Inr response, a1, w2)))"

definition list_workspaces ::
  "server \<Rightarrow> auth \<Rightarrow> world \<Rightarrow> (error + workspace list) \<times> auth \<times> world" where
  "list_workspaces net a w =
     (case client_request net ''GET'' ''/groups'' [] NoBody a w of
        (Inl e, a1, w1) \<Rightarrow> (Inl e, a1, w1)
      | (Inr response, a1, w1) \<Rightarrow>
          if status_code response \<noteq> 200 then
            (Inl (Raise Exception [S ''Failed to list workspaces: '', S (resp_text response)]), a1, w1)
          else (Inr (case j_value (json response) of None \<Rightarrow> [] | Some v \<Rightarrow> v), a1, w1))"

definition client_get_workspace_id ::
  "(string \<Rightarrow> string) \<Rightarrow> server \<Rightarrow> string \<Rightarrow> auth \<Rightarrow> world \<Rightarrow>
   (error + string option) \<times> auth \<times> world" where
  "client_get_workspace_id str_lower net workspace_name a w =
     (case list_workspaces net a w of
        (Inl e, a1, w1) \<Rightarrow> (Inl e, a1, w1)
      | (Inr workspaces, a1, w1) \<Rightarrow>
          (case match_workspace str_lower workspaces workspace_name of
             Some ws \<Rightarrow> (Inr (Some (ws_id ws)), a1, w1)
           | None \<Rightarrow> (Inr None, a1, w1)))"

subsection \<open>\<open>import_pbix\<close> and \<open>_import_large_pbix\<close>\<close>

text \<open>\<open>if workspace_id: endpoint = f"/groups/{workspace_id}" + rest, else: endpoint = rest\<close>,
  as every method of the client starts.\<close>

definition endpoint_for :: "string option \<Rightarrow> string \<Rightarrow> string" where
  "endpoint_for workspace_id rest =
     (case workspace_id of
        None \<Rightarrow> rest
      | Some ws \<Rightarrow> if ws \<noteq> [] then ''/groups/'' @ ws @ rest else rest)"

definition import_large_pbix ::
  "server \<Rightarrow> string \<Rightarrow> string \<Rightarrow> string option \<Rightarrow> string \<Rightarrow> auth \<Rightarrow> world \<Rightarrow>
   (error + body) \<times> auth \<times> world" where
  "import_large_pbix net pbix_path dataset_name workspace_id name_conflict a w =
     (case client_request net ''POST''
             (endpoint_for workspace_id ''/imports/createTemporaryUploadLocation'') [] NoBody a w of
        (Inl e, a1, w1) \<Rightarrow> (Inl e, a1, w1)
      | (Inr response, a1, w1) \<Rightarrow>
          if status_code response \<noteq> 200 then
            (Inl (Raise Exception [S ''Failed to create upload location: '', S (resp_text response)]),
             a1, w1)
          else
            (case j_url (json response) of
               None \<Rightarrow> (Inl (Raise KeyError [S ''url'']), a1, w1)
             | Some upload_url \<Rightarrow>
                 (case requests_request net
                         \<lparr>meth = ''PUT'', url = upload_url, params = [],
                          headers = [(''x-ms-blob-type'', ''BlockBlob''),
                                     (''Content-Type'', ''application/octet-stream'')],
                          payload = RawData pbix_path\<rparr> w1 of
                    (Fails e, w2) \<Rightarrow> (Inl (Raise RequestException [S e]), a1, w2)
                  | (Response blob_response, w2) \<Rightarrow>
                      if status_code blob_response \<notin> set [200, 201] then
                        (Inl (Raise Exception [S ''Blob upload failed: '', S (resp_text blob_response)]),
                         a1, w2)
                      else
                        (case client_request net ''POST'' (endpoint_for workspace_id ''/imports'')
                                [(''datasetDisplayName'', dataset_name),
                                 (''nameConflict'', name_conflict)]
                                (JsonFileUrl upload_url) a1 w2 of
                           (Inl e, a2, w3) \<Rightarrow> (Inl e, a2, w3)
                         | (Inr response2, a2, w3) \<Rightarrow>
                             if status_code response2 \<notin> set [200, 201, 202] then
                               (Inl (Raise Exception
                                      [S ''Import from blob failed: '', S (resp_text response2)]),
                                a2, w3)
                             else (Inr (json response2), a2, w3)))))"

text \<open>
  The lines of \<open>import_pbix\<close> after the size test (\<open># Standard upload for files < 1GB\<close>):
  one multipart POST of the file to the import endpoint.
\<close>

definition standard_upload ::
  "server \<Rightarrow> string \<Rightarrow> string \<Rightarrow> string option \<Rightarrow> string \<Rightarrow> bool \<Rightarrow> auth \<Rightarrow> world \<Rightarrow>
   (error + body) \<times> auth \<times> world" where
  "standard_upload net pbix_path dataset_name workspace_id name_conflict skip_report a w =
     (case get_token net a w of
        (Inl e, a1, w1) \<Rightarrow> (Inl e, a1, w1)
      | (Inr t, a1, w1) \<Rightarrow>
          (case requests_request net
                  \<lparr>meth = ''POST'',
                   url = POWER_BI_API_BASE @ endpoint_for workspace_id ''/imports'',
                   params = [(''datasetDisplayName'', dataset_name),
                             (''nameConflict'', name_conflict),
                             (''skipReport'', if skip_report then ''true'' else ''false'')],
                   headers = [(''Authorization'', ''Bearer '' @ t)],
                   payload = Files (path_name pbix_path) pbix_path\<rparr> w1 of
             (Fails e, w2) \<Rightarrow> (Inl (Raise RequestException [S e]), a1, w2)
           | (Response response, w2) \<Rightarrow>
               if status_code response \<notin> set [200, 201, 202] then
                 (Inl (Raise Exception [S ''Import failed ('', I (status_code response), S ''): '',
                                        S (resp_text response)]), a1, w2)
               else (Inr (json response), a1, w2)))"

text \<open>
  \<open>file_size / (1024 * 1024)\<close> is Python's true division of integers. Dividing by a power
  of two is exact in binary floating point below \<open>2^53\<close> bytes and monotone above, so the
  quotient is taken in the reals.
\<close>

definition import_pbix ::
  "server \<Rightarrow> filesystem \<Rightarrow> string \<Rightarrow> string \<Rightarrow> string option \<Rightarrow> string \<Rightarrow> bool \<Rightarrow> auth \<Rightarrow> world \<Rightarrow>
   (error + body) \<times> auth \<times> world" where
  "import_pbix net fs pbix_path dataset_name workspace_id name_conflict skip_report a w =
     (case fs pbix_path of
        None \<Rightarrow> (Inl (Raise FileNotFoundError [S ''PBIX file not found: '', S pbix_path]), a, w)
      | Some file_size \<Rightarrow>
          if \<not> lower (path_suffix pbix_path) = ''.pbix'' then
            (Inl (Raise ValueError [S ''File must be a .pbix file'']), a, w)
          else
            (let file_size_mb = real file_size / (1024 * 1024) in
             if file_size_mb > 1024 then
               import_large_pbix net pbix_path dataset_name workspace_id name_conflict a w
             else
               standard_upload net pbix_path dataset_name workspace_id name_conflict skip_report a w))"

subsection \<open>\<open>get_import_status\<close> and \<open>wait_for_import\<close>\<close>

definition get_import_status ::
  "server \<Rightarrow> string \<Rightarrow> string option \<Rightarrow> auth \<Rightarrow> world \<Rightarrow> (error + body) \<times> auth \<times> world" where
  "get_import_status net import_id workspace_id a w =
     (case client_request net ''GET'' (endpoint_for workspace_id (''/imports/'' @ import_id))
             [] NoBody a w of
        (Inl e, a1, w1) \<Rightarrow> (Inl e, a1, w1)
      | (Inr response, a1, w1) \<Rightarrow>
          if status_code response \<noteq> 200 then
            (Inl (Raise Exception [S ''Failed to get import status: '', S (resp_text response)]), a1, w1)
          else (Inr (json response), a1, w1))"

text \<open>
  The \<open>while\<close> loop of \<open>wait_for_import\<close>. With \<open>poll_interval = 0\<close> nothing advances the
  clock of the model, so the loop is a partial function: \<open>None\<close> is a run that never returns.
\<close>

partial_function (option) client_wait_loop ::
  "server \<Rightarrow> string \<Rightarrow> string option \<Rightarrow> int \<Rightarrow> int \<Rightarrow> int \<Rightarrow> auth \<Rightarrow> world \<Rightarrow>
   ((error + body) \<times> auth \<times> world) option" where
  "client_wait_loop net import_id workspace_id timeout poll_interval start_time a w =
     (if clock w - start_time < timeout then
        (case get_import_status net import_id workspace_id a w of
           (Inl e, a1, w1) \<Rightarrow> Some (Inl e, a1, w1)
         | (Inr status, a1, w1) \<Rightarrow>
             (let import_state = (case j_importState status of None \<Rightarrow> ''Unknown'' | Some s \<Rightarrow> s) in
              if import_state = ''Succeeded'' then Some (Inr status, a1, w1)
              else if import_state = ''Failed'' then
                Some (Inl (Raise Exception [S ''Import failed: '', D status]), a1, w1)
              else
                (case sleep poll_interval w1 of
                   Inl e \<Rightarrow> Some (Inl e, a1, w1)
                 | Inr w2 \<Rightarrow>
                     client_wait_loop net import_id workspace_id timeout poll_interval
                       start_time a1 w2)))
      else Some (Inl (Raise TimeoutError [S ''Import timed out after '', I timeout, S '' seconds'']),
                 a, w))"

definition wait_for_import ::
  "server \<Rightarrow> string \<Rightarrow> string option \<Rightarrow> int \<Rightarrow> int \<Rightarrow> auth \<Rightarrow> world \<Rightarrow>
   ((error + body) \<times> auth \<times> world) option" where
  "wait_for_import net import_id workspace_id timeout poll_interval a w =
     client_wait_loop net import_id workspace_id timeout poll_interval (clock w) a w"

section \<open>The vocabulary of the polling properties\<close>

text \<open>
  A status is terminal when its state is \<open>Succeeded\<close> or \<open>Failed\<close>; a missing state and
  every other one is not. A reply is pending when it is a 200 whose status is not terminal.
  \<open>pending net w rq k\<close>: the next \<open>k\<close> requests, from the world \<open>w\<close> on, get pending
  replies. \<open>never_retried net\<close>: every request gets a response, and none is a 429, so that
  \<open>_make_request\<close> returns from its first attempt and does not sleep.
  \<open>status_request\<close> is the request of a poll of publish_powerbi_report.py,
  \<open>client_status_request\<close> that of powerbi_publisher.py with the bearer token \<open>t\<close>.
\<close>

definition terminal :: "body \<Rightarrow> bool" where
  "terminal status =
     (j_importState status = Some ''Succeeded'' \<or> j_importState status = Some ''Failed'')"

definition pending_reply :: "reply \<Rightarrow> bool" where
  "pending_reply rp =
     (case rp of Response r \<Rightarrow> status_code r = 200 \<and> \<not> terminal (json r) | Fails x \<Rightarrow> False)"

definition pending :: "server \<Rightarrow> world \<Rightarrow> request \<Rightarrow> nat \<Rightarrow> bool" where
  "pending net w rq k = (\<forall>i\<in>{..<k}. pending_reply (net (length (sent w) + i) rq))"

definition never_retried :: "server \<Rightarrow> bool" where
  "never_retried net =
     (\<forall>n rq. case net n rq of Response r \<Rightarrow> status_code r \<noteq> 429 | Fails x \<Rightarrow> False)"

definition status_request :: "string \<Rightarrow> string \<Rightarrow> string \<Rightarrow> request" where
  "status_request tok ws imp = api_request tok ''GET'' (''groups/'' @ ws @ ''/imports/'' @ imp)"

definition client_status_request :: "string \<Rightarrow> string option \<Rightarrow> string \<Rightarrow> request" where
  "client_status_request t ws imp =
     \<lparr>meth = ''GET'', url = POWER_BI_API_BASE @ endpoint_for ws (''/imports/'' @ imp),
      params = [], headers = [(''Authorization'', ''Bearer '' @ t)], payload = NoBody\<rparr>"

section \<open>The vocabulary of case-insensitive matching\<close>





section \<open>Concrete runs\<close>

definition empty_body :: body where
  "empty_body =
     \<lparr>j_access_token = None, j_expires_in = None, j_value = None, j_id = None,
      j_importState = None, j_error = None, j_reports = None, j_datasets = None, j_url = None\<rparr>"

definition plain :: "int \<Rightarrow> string \<Rightarrow> response" where
  "plain code txt = \<lparr>status_code = code, retry_after = None, resp_text = txt, json = empty_body\<rparr>"

definition rate_limited :: "header_value option \<Rightarrow> response" where
  "rate_limited h =
     \<lparr>status_code = 429, retry_after = h, resp_text = ''Too Many Requests'', json = empty_body\<rparr>"

definition world0 :: world where
  "world0 = \<lparr>clock = 0, sent = [], logged = []\<rparr>"

text \<open>A server that always answers 429 with \<open>Retry-After: 1\<close>; one that answers 429 without
  the header once and 200 afterwards; one that refuses every request with 403.\<close>

definition always_rate_limited :: server where
  "always_rate_limited n rq = Response (rate_limited (Some (Seconds 1)))"

definition limited_once :: server where
  "limited_once n rq = Response (if n = 0 then rate_limited None else plain 200 ''ok'')"

definition forbidden :: server where
  "forbidden n rq = Response (plain 403 ''Forbidden'')"

text \<open>An authenticator with no token yet, and one holding a token good for an hour; an
  identity provider that gives tokens of 30 seconds, and one that gives no lifetime.\<close>

definition auth0 :: auth where
  "auth0 = \<lparr>tenant_id = ''tenant'', client_id = ''client'', client_secret = ''secret'',
            access_token = None, token_expiry = 0\<rparr>"

definition auth_cached :: auth where
  "auth_cached = auth0\<lparr>access_token := Some ''tok'', token_expiry := 3600\<rparr>"

definition token_response :: "string \<Rightarrow> int option \<Rightarrow> response" where
  "token_response t e =
     \<lparr>status_code = 200, retry_after = None, resp_text = ''ok'',
      json = empty_body\<lparr>j_access_token := Some t, j_expires_in := e\<rparr>\<rparr>"

definition short_lived :: server where
  "short_lived n rq = Response (token_response ''fresh'' (Some 30))"

definition no_lifetime :: server where
  "no_lifetime n rq = Response (token_response ''fresh'' None)"

text \<open>A service that lists two workspaces.\<close>

definition two_workspaces :: "workspace list" where
  "two_workspaces = [\<lparr>ws_id = ''id-1'', ws_name = ''Marketing''\<rparr>, \<lparr>ws_id = ''id-2'', ws_name = ''Sales''\<rparr>]"

definition listing :: server where
  "listing n rq =
     Response \<lparr>status_code = 200, retry_after = None, resp_text = ''ok'',
               json = empty_body\<lparr>j_value := Some two_workspaces\<rparr>\<rparr>"

text \<open>A file system with a report of exactly 1 GiB, one of a byte more and a text file; a
  service that stages uploads (an upload location, then 201 for the blob, then 202 for an
  import); one that answers every request 201.\<close>

definition files :: filesystem where
  "files p =
     (if p = ''report.pbix'' then Some 1073741824
      else if p = ''big.PBIX'' then Some 1073741825
      else if p = ''notes.txt'' then Some 12
      else None)"

definition accepted :: "int \<Rightarrow> string \<Rightarrow> response" where
  "accepted code txt =
     \<lparr>status_code = code, retry_after = None, resp_text = txt,
      json = empty_body\<lparr>j_id := Some ''imp-1''\<rparr>\<rparr>"

definition staging :: server where
  "staging n rq =
     Response (case payload rq of
                 NoBody \<Rightarrow> \<lparr>status_code = 200, retry_after = None, resp_text = ''ok'',
                             json = empty_body\<lparr>j_url := Some ''https://blob/x''\<rparr>\<rparr>
               | RawData f \<Rightarrow> plain 201 ''Created''
               | _ \<Rightarrow> accepted 202 ''Accepted'')"

definition created :: server where
  "created n rq = Response (accepted 201 ''Created'')"

lemma suffix_report: "lower (path_suffix ''report.pbix'') = ''.pbix''"
  by (simp add: path_suffix_def path_name_def path_parts_def rfind_dot_def lower_def lower_char_def)

lemma suffix_big: "lower (path_suffix ''big.PBIX'') = ''.pbix''"
  by (simp add: path_suffix_def path_name_def path_parts_def rfind_dot_def lower_def lower_char_def)

lemma suffix_notes: "lower (path_suffix ''notes.txt'') = ''.txt''"
  by (simp add: path_suffix_def path_name_def path_parts_def rfind_dot_def lower_def lower_char_def)

text \<open>A status answer with a given state; a service whose first answer is \<open>Importing\<close>
  and whose later answers are \<open>Succeeded\<close>; one that answers 429 with \<open>Retry-After: 1000\<close>
  once and \<open>Importing\<close> ever after.\<close>

definition status_response :: "string option \<Rightarrow> response" where
  "status_response st =
     \<lparr>status_code = 200, retry_after = None, resp_text = ''ok'',
      json = empty_body\<lparr>j_importState := st\<rparr>\<rparr>"

definition importing_once :: server where
  "importing_once n rq =
     Response (status_response (Some (if n = 0 then ''Importing'' else ''Succeeded'')))"

definition slow_down :: server where
  "slow_down n rq =
     Response (if n = 0 then rate_limited (Some (Seconds 1000))
               else status_response (Some ''Importing''))"

section \<open>The retry policy of \<open>_make_request\<close>\<close>

text \<open>
  C2, as the specification has it, asks for a fourth attempt after three responses 429.
  The loop is \<open>for attempt in range(3)\<close>: against a server that always answers 429 it
  sends three requests and raises \<open>Max retries exceeded\<close>.
\<close>

theorem three_rate_limits_no_fourth_attempt:
  "fst (make_request always_rate_limited ''t'' ''GET'' ''groups'' world0) =
     Inl (Raise Exception [S ''Max retries exceeded'']) \<and>
   length (sent (snd (make_request always_rate_limited ''t'' ''GET'' ''groups'' world0))) = 3"
  by (simp add: make_request_def upt_3 max_retries_def requests_request_def
      always_rate_limited_def rate_limited_def rate_limit_wait_def sleep_def warning_def
      world0_def)

text \<open>
  C2 (amended): when the first \<open>k \<le> 3\<close> responses are 429, each is followed by a sleep of
  \<open>d i\<close> seconds, the \<open>Retry-After\<close> seconds if the header is there and
  \<open>retry_delay * (i + 1)\<close> otherwise, and the request is sent again. If the response after
  them is not a 429 it is returned, after \<open>k + 1\<close> requests; after three responses 429
  the call raises \<open>Max retries exceeded\<close>, with three requests sent and no fourth.
\<close>

theorem make_request_rate_limit_bound:
  assumes k: "k \<le> max_retries"
    and limited: "\<forall>i<k. net (length (sent w) + i) (api_request tok m e) = Response (r i) \<and>
           status_code (r i) = 429 \<and>
           (retry_after (r i) = None \<and> d i = retry_delay * (int i + 1) \<or>
            retry_after (r i) = Some (Seconds (d i)) \<and> 0 \<le> d i)"
    and answered: "k < max_retries \<longrightarrow>
           net (length (sent w) + k) (api_request tok m e) = Response (r k) \<and>
           status_code (r k) \<noteq> 429"
  shows "make_request net tok m e w =
     (if k < max_retries then Inr (r k) else Inl (Raise Exception [S ''Max retries exceeded'']),
      w\<lparr>sent := sent w @ replicate (min (Suc k) max_retries) (api_request tok m e),
        logged := logged w @
          map (\<lambda>i. [S ''Rate limited. Waiting '', I (d i), S '' seconds...'']) [0..<k],
        clock := clock w + (\<Sum>i<k. d i)\<rparr>)"
proof -
  have wait_at:
    "net (length (sent w) + i) (api_request tok m e) = Response (r i)"
    "status_code (r i) = 429" "rate_limit_wait (r i) i = Inr (d i)" "0 \<le> d i" if "i < k" for i
    using limited that by (auto simp: rate_limit_wait_def retry_delay_def)
  consider (zero) "k = 0" | (one) "k = 1" | (two) "k = 2" | (three) "k = 3"
    using k unfolding max_retries_def by arith
  then show ?thesis
  proof cases
    case zero
    show ?thesis unfolding zero using answered[unfolded zero]
      by (simp add: make_request_def upt_3 requests_request_def max_retries_def)
  next
    case one
    have "0 < k" using one by simp
    note w0 = wait_at[OF this]
    show ?thesis unfolding one using answered[unfolded one] w0
      by (simp add: make_request_def upt_3 requests_request_def max_retries_def
          sleep_def warning_def lessThan_Suc)
  next
    case two
    have "0 < k" and "1 < k" using two by simp_all
    note w0 = wait_at[OF \<open>0 < k\<close>] and w1 = wait_at[OF \<open>1 < k\<close>]
    show ?thesis unfolding two using answered[unfolded two] w0 w1
      by (simp add: make_request_def upt_3 requests_request_def max_retries_def
          sleep_def warning_def upt_rec lessThan_Suc eval_nat_numeral)
  next
    case three
    have "0 < k" and "1 < k" and "2 < k" using three by simp_all
    note w0 = wait_at[OF \<open>0 < k\<close>] and w1 = wait_at[OF \<open>1 < k\<close>]
      and w2 = wait_at[OF \<open>2 < k\<close>]
    show ?thesis unfolding three using w0 w1 w2
      by (simp add: make_request_def upt_3 requests_request_def max_retries_def
          sleep_def warning_def upt_rec lessThan_Suc eval_nat_numeral)
  qed
qed

theorem make_request_rate_limit_bound_witness:
  "make_request limited_once ''t'' ''GET'' ''groups'' world0 =
     (Inr (plain 200 ''ok''),
      \<lparr>clock = 2,
       sent = [api_request ''t'' ''GET'' ''groups'', api_request ''t'' ''GET'' ''groups''],
       logged = [[S ''Rate limited. Waiting '', I 2, S '' seconds...'']]\<rparr>)"
  using make_request_rate_limit_bound[of 1 limited_once world0 "''t''" "''GET''" "''groups''"
      "\<lambda>i. if i = 0 then rate_limited None else plain 200 ''ok''" "\<lambda>i. 2"]
  by (simp add: limited_once_def rate_limited_def plain_def world0_def max_retries_def
      retry_delay_def)

text \<open>
  C3: a response whose status is not 429 is returned from the first attempt, with one
  request sent and no sleep; a second request is sent only after a 429 or after an
  exception of \<open>requests\<close>; and after such an exception a second request is sent.
\<close>

theorem make_request_application_error_not_retried:
  "(net (length (sent w)) (api_request tok m e) = Response r \<and> status_code r \<noteq> 429 \<longrightarrow>
      make_request net tok m e w = (Inr r, w\<lparr>sent := sent w @ [api_request tok m e]\<rparr>)) \<and>
   (length (sent (snd (make_request net tok m e w))) \<noteq> length (sent w) + 1 \<longrightarrow>
      (\<exists>r. net (length (sent w)) (api_request tok m e) = Response r \<and> status_code r = 429) \<or>
      (\<exists>x. net (length (sent w)) (api_request tok m e) = Fails x)) \<and>
   (net (length (sent w)) (api_request tok m e) = Fails x \<longrightarrow>
      length (sent w) + 2 \<le> length (sent (snd (make_request net tok m e w))))"
proof -
  have one: "make_request net tok m e w = (Inr r, w\<lparr>sent := sent w @ [api_request tok m e]\<rparr>)"
    if "net (length (sent w)) (api_request tok m e) = Response r" and "status_code r \<noteq> 429" for r
    unfolding make_request_def max_retries_def upt_3
    using that by (rule make_request_attempts_returns)
  have two: "(\<exists>r. net (length (sent w)) (api_request tok m e) = Response r \<and> status_code r = 429) \<or>
      (\<exists>x. net (length (sent w)) (api_request tok m e) = Fails x)"
    if len: "length (sent (snd (make_request net tok m e w))) \<noteq> length (sent w) + 1"
  proof (cases "net (length (sent w)) (api_request tok m e)")
    case (Response r)
    have "status_code r = 429"
    proof (rule ccontr)
      assume "status_code r \<noteq> 429"
      from one[OF Response this] len show False by simp
    qed
    with Response show ?thesis by simp
  next
    case (Fails x)
    then show ?thesis by simp
  qed
  have three: "length (sent w) + 2 \<le> length (sent (snd (make_request net tok m e w)))"
    if failed: "net (length (sent w)) (api_request tok m e) = Fails x"
  proof -
    let ?w = "w\<lparr>sent := sent w @ [api_request tok m e],
        logged := logged w @ [[S ''Request failed (attempt '', I (int 0 + 1), S ''/'',
                                I (int max_retries), S ''): '', S x]],
        clock := clock w + retry_delay * (int 0 + 1)\<rparr>"
    have "0 \<noteq> max_retries - 1"
      by (simp add: max_retries_def)
    from make_request_attempts_failed[where net = net and w = w and rest = "[1, 2]",
        OF failed this]
    have "make_request net tok m e w =
          make_request_attempts net (api_request tok m e) [1, 2] ?w"
      by (simp add: make_request_def max_retries_def upt_3 del: make_request_attempts.simps)
    moreover have "length (sent ?w) <
        length (sent (snd (make_request_attempts net (api_request tok m e) [1, 2] ?w)))"
      by (rule make_request_attempts_sends)
    ultimately show ?thesis by simp
  qed
  from one two three show ?thesis by blast
qed

theorem make_request_application_error_not_retried_witness:
  "make_request forbidden ''t'' ''GET'' ''groups'' world0 =
     (Inr (plain 403 ''Forbidden''),
      \<lparr>clock = 0, sent = [api_request ''t'' ''GET'' ''groups''], logged = []\<rparr>)"
  using make_request_application_error_not_retried[of forbidden world0 "''t''" "''GET''"
      "''groups''" "plain 403 ''Forbidden''"]
  by (simp add: forbidden_def plain_def world0_def)

section \<open>The token cache of \<open>get_token\<close>\<close>

lemma get_token_cached:
  assumes "access_token a = Some t" and "t \<noteq> []" and "clock w < token_expiry a - 60"
  shows "get_token net a w = (Inr t, a, w)"
  using assms by (simp add: get_token_def cached_token_def)

lemma get_token_sends_one:
  assumes "cached_token a (clock w) = None"
  shows "sent (snd (snd (get_token net a w))) = sent w @ [token_request a]"
  using assms
  by (simp add: get_token_def requests_request_def Let_def split: reply.split option.split)

lemma get_token_fresh:
  assumes "cached_token a (clock w) = None"
    and "net (length (sent w)) (token_request a) = Response r"
    and "status_code r = 200" and "j_access_token (json r) = Some t"
  shows "get_token net a w =
           (Inr t, a\<lparr>access_token := Some t, token_expiry := clock w + expires_in (json r)\<rparr>,
            w\<lparr>sent := sent w @ [token_request a]\<rparr>)"
  using assms by (simp add: get_token_def requests_request_def)

lemma get_token_fresh_expiry:
  assumes "cached_token a (clock w) = None"
    and "net (length (sent w)) (token_request a) = Response r"
    and "status_code r = 200" and "j_access_token (json r) = Some t"
  shows "get_token net a w =
           (Inr t,
            a\<lparr>access_token := Some t,
              token_expiry :=
                clock w + (case j_expires_in (json r) of None \<Rightarrow> 3600 | Some lifetime \<Rightarrow> lifetime)\<rparr>,
            w\<lparr>sent := sent w @ [token_request a]\<rparr>)"
  using assms by (simp add: get_token_def requests_request_def expires_in_def)

text \<open>
  C6: when a token is cached (\<open>self.access_token\<close> is true in Python: not \<open>None\<close> and not
  empty) and the clock is more than 60 seconds before its expiry, \<open>get_token\<close> returns it
  and leaves the authenticator and the world as they are: no request is sent. When no token
  is cached, or the expiry is 60 seconds or less away, it sends exactly one request, the
  client-credentials POST to the token endpoint of the tenant; when that is answered 200
  with a token, the token is cached with the expiry \<open>now + expires_in\<close>, where
  \<open>expires_in\<close> is the field of that name in the response, and 3600 when the response
  has none.
\<close>

theorem get_token_memoizes:
  "(access_token a = Some t \<and> t \<noteq> [] \<and> clock w < token_expiry a - 60 \<longrightarrow>
      get_token net a w = (Inr t, a, w)) \<and>
   (access_token a = None \<or> access_token a = Some [] \<or> token_expiry a - clock w \<le> 60 \<longrightarrow>
      sent (snd (snd (get_token net a w))) = sent w @ [token_request a] \<and>
      token_request a =
        \<lparr>meth = ''POST'',
         url = ''https://login.microsoftonline.com/'' @ tenant_id a @ ''/oauth2/v2.0/token'',
         params = [], headers = [],
         payload = FormData [(''grant_type'', ''client_credentials''), (''client_id'', client_id a),
                             (''client_secret'', client_secret a),
                             (''scope'', ''https://analysis.windows.net/powerbi/api/.default'')]\<rparr> \<and>
      (\<forall>r t'. net (length (sent w)) (token_request a) = Response r \<and> status_code r = 200 \<and>
          j_access_token (json r) = Some t' \<longrightarrow>
          get_token net a w =
            (Inr t',
             a\<lparr>access_token := Some t',
               token_expiry :=
                 clock w + (case j_expires_in (json r) of None \<Rightarrow> 3600 | Some lifetime \<Rightarrow> lifetime)\<rparr>,
             w\<lparr>sent := sent w @ [token_request a]\<rparr>)))"
proof -
  have stale: "cached_token a (clock w) = None"
    if "access_token a = None \<or> access_token a = Some [] \<or> token_expiry a - clock w \<le> 60"
    using that by (auto simp: cached_token_def split: option.split)
  have exchange: "token_request a =
        \<lparr>meth = ''POST'',
         url = ''https://login.microsoftonline.com/'' @ tenant_id a @ ''/oauth2/v2.0/token'',
         params = [], headers = [],
         payload = FormData [(''grant_type'', ''client_credentials''), (''client_id'', client_id a),
                             (''client_secret'', client_secret a),
                             (''scope'', ''https://analysis.windows.net/powerbi/api/.default'')]\<rparr>"
    by (simp add: token_request_def POWER_BI_SCOPE_def)
  show ?thesis
    using get_token_cached[of a t w net] get_token_sends_one[OF stale, of net]
      get_token_fresh_expiry[OF stale, of net] exchange
    by blast
qed

theorem get_token_memoizes_witness:
  "get_token short_lived auth_cached world0 = (Inr ''tok'', auth_cached, world0) \<and>
   get_token short_lived auth0 world0 =
     (Inr ''fresh'', auth0\<lparr>access_token := Some ''fresh'', token_expiry := 30\<rparr>,
      world0\<lparr>sent := [token_request auth0]\<rparr>) \<and>
   get_token no_lifetime auth0 world0 =
     (Inr ''fresh'', auth0\<lparr>access_token := Some ''fresh'', token_expiry := 3600\<rparr>,
      world0\<lparr>sent := [token_request auth0]\<rparr>)"
  using get_token_memoizes[of auth_cached "''tok''" world0 short_lived]
    get_token_memoizes[of auth0 "''tok''" world0 short_lived]
    get_token_memoizes[of auth0 "''tok''" world0 no_lifetime]
  by (simp add: auth_cached_def auth0_def world0_def short_lived_def no_lifetime_def
      token_response_def empty_body_def)

section \<open>The remaining validity of a returned token\<close>

text \<open>
  C7, as the specification has it, fails for a fresh token: the lifetime the identity
  provider gives is cached and returned as it is. With \<open>expires_in = 30\<close> the token
  returned has 30 seconds left.
\<close>

theorem fresh_token_with_short_lifetime:
  "fst (get_token short_lived auth0 world0) = Inr ''fresh'' \<and>
   token_expiry (fst (snd (get_token short_lived auth0 world0))) -
     clock (snd (snd (get_token short_lived auth0 world0))) = 30"
  by (simp add: get_token_def cached_token_def requests_request_def auth0_def world0_def
      short_lived_def token_response_def expires_in_def empty_body_def)

text \<open>
  C7 (amended): a token returned without a request is the cached one and has more than 60
  seconds left; otherwise exactly one token exchange was made and the token returned has
  the lifetime the response gave (\<open>expires_in\<close>, 3600 when absent) left. So it has at least
  60 seconds left whenever the identity provider gives lifetimes of at least 60 seconds.
\<close>

theorem get_token_remaining_validity:
  assumes "get_token net a w = (Inr t, a', w')"
  shows "access_token a' = Some t \<and>
         (sent w' = sent w \<and> 60 < token_expiry a' - clock w' \<or>
          (\<exists>r. net (length (sent w)) (token_request a) = Response r \<and>
               sent w' = sent w @ [token_request a] \<and>
               token_expiry a' - clock w' = expires_in (json r))) \<and>
         ((\<forall>r. net (length (sent w)) (token_request a) = Response r \<longrightarrow>
               60 \<le> expires_in (json r)) \<longrightarrow>
          60 \<le> token_expiry a' - clock w')"
proof (cases "cached_token a (clock w)")
  case (Some c)
  with assms have "a' = a" "w' = w" "t = c"
    by (simp_all add: get_token_def)
  with Some show ?thesis
    by (auto simp: cached_token_def split: option.splits if_splits)
next
  case None
  with assms show ?thesis
    by (auto simp: get_token_def requests_request_def Let_def
        split: reply.splits option.splits if_splits)
qed

theorem get_token_remaining_validity_witness:
  "access_token (auth0\<lparr>access_token := Some ''fresh'', token_expiry := 30\<rparr>) = Some ''fresh'' \<and>
   (\<exists>r. short_lived 0 (token_request auth0) = Response r \<and> expires_in (json r) = 30)"
  using get_token_remaining_validity[of short_lived auth0 world0 "''fresh''"
      "auth0\<lparr>access_token := Some ''fresh'', token_expiry := 30\<rparr>"
      "world0\<lparr>sent := [token_request auth0]\<rparr>"]
  by (simp add: get_token_def cached_token_def requests_request_def auth0_def world0_def
      short_lived_def token_response_def expires_in_def empty_body_def)

section \<open>Workspace resolution\<close>


lemma match_workspace_none:
  "(match_workspace str_lower workspaces name = None) =
     (\<forall>x\<in>set workspaces. str_lower (ws_name x) \<noteq> str_lower name)"
  by (induction workspaces) simp_all









text \<open>
  C9, as the specification has it, fails in both scripts. In powerbi_publisher.py
  \<open>get_workspace_id\<close> returns \<open>None\<close>, a normal result. In publish_powerbi_report.py it
  raises \<open>ValueError\<close>, and the message holds the name asked for and no listed name. (The
  names of this run are ASCII, where \<open>str.lower()\<close> is \<open>lower\<close>.)
\<close>

theorem workspace_not_found_is_not_an_error_with_names:
  "fst (client_get_workspace_id lower listing ''Nonexistent'' auth_cached world0) = Inr None \<and>
   fst (publisher_get_workspace_id lower listing ''t'' ''Nonexistent'' world0) =
     Inl (Raise ValueError [S ''Workspace '', S quote, S ''Nonexistent'', S quote, S '' not found''])"
  by (simp add: client_get_workspace_id_def list_workspaces_def client_request_def get_token_def
      cached_token_def requests_request_def auth_cached_def auth0_def world0_def listing_def
      publisher_get_workspace_id_def make_request_def max_retries_def upt_3
      two_workspaces_def lower_def lower_char_def)

text \<open>
  C9 (amended): when no listed name matches after \<open>str.lower()\<close>, \<open>get_workspace_id\<close> of
  powerbi_publisher.py returns \<open>None\<close>; \<open>get_workspace_id\<close> of publish_powerbi_report.py
  logs a warning for every listed workspace, with its name and identifier, and raises
  \<open>ValueError\<close> with the name asked for.
\<close>

theorem get_workspace_id_not_found:
  assumes "\<forall>x\<in>set workspaces. str_lower (ws_name x) \<noteq> str_lower name"
  shows
    "(list_workspaces net a w = (Inr workspaces, a1, w1) \<longrightarrow>
       client_get_workspace_id str_lower net name a w = (Inr None, a1, w1)) \<and>
     (make_request net tok ''GET'' ''groups'' w = (Inr r, w2) \<and> status_code r = 200 \<and>
      j_value (json r) = Some workspaces \<longrightarrow>
       publisher_get_workspace_id str_lower net tok name w =
         (Inl (Raise ValueError [S ''Workspace '', S quote, S name, S quote, S '' not found'']),
          w2\<lparr>logged := logged w2 @ available_workspaces workspaces\<rparr>) \<and>
       (\<forall>x\<in>set workspaces.
          [S ''  - '', S (ws_name x), S '' (ID: '', S (ws_id x), S '')''] \<in>
            set (logged (snd (publisher_get_workspace_id str_lower net tok name w)))))"
proof -
  from assms have none: "match_workspace str_lower workspaces name = None"
    by (simp add: match_workspace_none)
  show ?thesis
    using none
    by (auto simp: client_get_workspace_id_def publisher_get_workspace_id_def
        available_workspaces_def)
qed

theorem get_workspace_id_not_found_witness:
  "fst (client_get_workspace_id lower listing ''Nonexistent'' auth_cached world0) = Inr None \<and>
   logged (snd (publisher_get_workspace_id lower listing ''t'' ''Nonexistent'' world0)) =
     [[S ''Available workspaces:''],
      [S ''  - '', S ''Marketing'', S '' (ID: '', S ''id-1'', S '')''],
      [S ''  - '', S ''Sales'', S '' (ID: '', S ''id-2'', S '')'']]"
proof -
  have l: "\<forall>x\<in>set two_workspaces. lower (ws_name x) \<noteq> lower ''Nonexistent''"
    by (simp add: two_workspaces_def lower_def lower_char_def)
  have c: "list_workspaces listing auth_cached world0 =
      (Inr two_workspaces, auth_cached,
       snd (snd (list_workspaces listing auth_cached world0)))"
    by (simp add: list_workspaces_def client_request_def get_token_def cached_token_def
        requests_request_def auth_cached_def auth0_def world0_def listing_def)
  have p: "make_request listing ''t'' ''GET'' ''groups'' world0 =
      (Inr \<lparr>status_code = 200, retry_after = None, resp_text = ''ok'',
               json = empty_body\<lparr>j_value := Some two_workspaces\<rparr>\<rparr>,
       world0\<lparr>sent := [api_request ''t'' ''GET'' ''groups'']\<rparr>)"
    by (simp add: make_request_def max_retries_def upt_3 requests_request_def listing_def
        world0_def)
  show ?thesis
    using get_workspace_id_not_found[where str_lower = lower and workspaces = two_workspaces
        and name = "''Nonexistent''" and net = listing and a = auth_cached and w = world0
        and ?a1.0 = auth_cached
        and ?w1.0 = "snd (snd (list_workspaces listing auth_cached world0))"
        and tok = "''t''"
        and r = "\<lparr>status_code = 200, retry_after = None, resp_text = ''ok'',
               json = empty_body\<lparr>j_value := Some two_workspaces\<rparr>\<rparr>"
        and ?w2.0 = "world0\<lparr>sent := [api_request ''t'' ''GET'' ''groups'']\<rparr>"] l c p
    by (simp add: available_workspaces_def two_workspaces_def world0_def)
qed

section \<open>The choice of the upload path\<close>

text \<open>
  C4: for an existing \<open>.pbix\<close> file, \<open>import_pbix\<close> is \<open>_import_large_pbix\<close> (the staged
  path) when the size is more than \<open>2^30\<close> bytes, and the standard multipart upload when it
  is \<open>2^30\<close> bytes or less: the test \<open>file_size / (1024 * 1024) > 1024\<close> depends on the
  size alone.
\<close>

theorem upload_strategy_by_size:
  assumes "fs p = Some n" and "lower (path_suffix p) = ''.pbix''"
  shows "import_pbix net fs p d ws nc sr a w =
           (if 2 ^ 30 < n then import_large_pbix net p d ws nc a w
            else standard_upload net p d ws nc sr a w)"
proof -
  have "(1024 < real n / (1024 * 1024)) = (2 ^ 30 < n)"
    by (simp add: field_simps)
  with assms show ?thesis
    by (simp add: import_pbix_def)
qed

theorem upload_strategy_by_size_witness:
  "map payload (sent (snd (snd (import_pbix staging files ''report.pbix'' ''Report'' None
       ''CreateOrOverwrite'' False auth_cached world0)))) = [Files ''report.pbix'' ''report.pbix''] \<and>
   map payload (sent (snd (snd (import_pbix staging files ''big.PBIX'' ''Report'' None
       ''CreateOrOverwrite'' False auth_cached world0)))) =
     [NoBody, RawData ''big.PBIX'', JsonFileUrl ''https://blob/x'']"
proof -
  have direct: "map payload (sent (snd (snd (standard_upload staging ''report.pbix'' ''Report'' None
       ''CreateOrOverwrite'' False auth_cached world0)))) = [Files ''report.pbix'' ''report.pbix'']"
    by (simp add: standard_upload_def get_token_def cached_token_def auth_cached_def auth0_def
        world0_def requests_request_def staging_def accepted_def path_name_def path_parts_def)
  have staged: "map payload (sent (snd (snd (import_large_pbix staging ''big.PBIX'' ''Report'' None
       ''CreateOrOverwrite'' auth_cached world0)))) =
     [NoBody, RawData ''big.PBIX'', JsonFileUrl ''https://blob/x'']"
    by (simp add: import_large_pbix_def client_request_def get_token_def cached_token_def
        auth_cached_def auth0_def world0_def requests_request_def staging_def accepted_def
        plain_def endpoint_for_def)
  have f: "files ''report.pbix'' = Some 1073741824" "files ''big.PBIX'' = Some 1073741825"
    by (simp_all add: files_def)
  show ?thesis
    using upload_strategy_by_size[where fs = files and p = "''report.pbix''"
        and n = 1073741824 and net = staging and d = "''Report''" and ws = None
        and nc = "''CreateOrOverwrite''" and sr = False and a = auth_cached and w = world0]
      upload_strategy_by_size[where fs = files and p = "''big.PBIX''"
        and n = 1073741825 and net = staging and d = "''Report''" and ws = None
        and nc = "''CreateOrOverwrite''" and sr = False and a = auth_cached and w = world0]
      f suffix_report suffix_big direct staged
    by simp
qed

section \<open>The status of the upload response\<close>

lemma standard_upload_status:
  assumes "get_token net a w = (Inr t, a1, w1)"
    and "net (length (sent w1))
           \<lparr>meth = ''POST'', url = POWER_BI_API_BASE @ endpoint_for ws ''/imports'',
            params = [(''datasetDisplayName'', d), (''nameConflict'', nc),
                      (''skipReport'', if sr then ''true'' else ''false'')],
            headers = [(''Authorization'', ''Bearer '' @ t)],
            payload = Files (path_name p) p\<rparr> = Response r"
  shows "fst (standard_upload net p d ws nc sr a w) =
           (if status_code r = 200 \<or> status_code r = 201 \<or> status_code r = 202
            then Inr (json r)
            else Inl (Raise Exception [S ''Import failed ('', I (status_code r), S ''): '',
                                       S (resp_text r)]))"
  using assms by (simp add: standard_upload_def requests_request_def)

text \<open>
  C5 holds for \<open>import_pbix\<close> (\<open>standard_upload_status\<close>), which accepts 200, 201 and
  202. \<open>publish_report\<close> tests \<open>not in [200, 202]\<close>: when the upload is answered 201 it
  raises \<open>Publish failed\<close>, where \<open>import_pbix\<close> returns the body of the same response.
\<close>

theorem publish_report_rejects_201:
  "fst (publish_report created files ''t'' ''report.pbix'' ''ws'' None world0) =
     Inl (Raise Exception [S ''Publish failed: '', S ''Created'']) \<and>
   fst (import_pbix created files ''report.pbix'' ''Report'' (Some ''ws'') ''CreateOrOverwrite''
          False auth_cached world0) = Inr (json (accepted 201 ''Created''))"
  by (simp add: publish_report_def import_pbix_def standard_upload_def files_def suffix_report
      requests_request_def created_def accepted_def error_message_def empty_body_def
      get_token_def cached_token_def auth_cached_def auth0_def world0_def Let_def)

section \<open>The validation of the file\<close>

lemma make_request_attempts_errors:
  "fst (make_request_attempts net rq attempts w) = Inl (Raise c m) \<Longrightarrow>
     c \<noteq> FileNotFoundError \<and> m \<noteq> [S ''File must be a .pbix file: '', S p]"
proof (induction attempts arbitrary: w)
  case Nil
  then show ?case by auto
next
  case (Cons attempt rest)
  then show ?case
    by (auto simp: requests_request_def sleep_def warning_def Let_def rate_limit_wait_def
        split: reply.splits sum.splits if_splits option.splits header_value.splits)
qed

lemma wait_for_import_loop_sent:
  "length (sent w) \<le> length (sent (snd (wait_for_import_loop net tok ws imp timeout start w)))"
proof (induction net tok ws imp timeout start w rule: wait_for_import_loop.induct)
  case (1 net tok ws imp timeout start w)
  let ?e = "''groups/'' @ ws @ ''/imports/'' @ imp"
  obtain res w1 where req: "make_request net tok ''GET'' ?e w = (res, w1)"
    by (cases "make_request net tok ''GET'' ?e w")
  have w1: "length (sent w) \<le> length (sent w1)"
    using make_request_attempts_sent[of w net "api_request tok ''GET'' ?e" "[0..<max_retries]"] req
    by (simp add: make_request_def)
  show ?case
  proof (cases "clock w - start < timeout")
    case False
    then show ?thesis by (subst wait_for_import_loop.simps) simp
  next
    case True
    show ?thesis
    proof (cases res)
      case (Inl e)
      with True req w1 show ?thesis by (subst wait_for_import_loop.simps) simp
    next
      case (Inr r)
      show ?thesis
      proof (cases "status_code r = 200 \<and> j_importState (json r) \<noteq> Some ''Succeeded'' \<and>
                    j_importState (json r) \<noteq> Some ''Failed''")
        case False
        with True req w1 Inr show ?thesis
          by (subst wait_for_import_loop.simps) (auto simp: Let_def)
      next
        case pending: True
        have slept: "sleep check_interval w1 = Inr (w1\<lparr>clock := clock w1 + 5\<rparr>)"
          by (simp add: sleep_def check_interval_def)
        have "length (sent (w1\<lparr>clock := clock w1 + 5\<rparr>)) \<le>
              length (sent (snd (wait_for_import_loop net tok ws imp timeout start
                 (w1\<lparr>clock := clock w1 + 5\<rparr>))))"
          using "1.IH"[OF True req[symmetric] _ _ refl refl _ _ slept] Inr pending
          by simp
        with True req w1 Inr pending slept show ?thesis
          by (subst wait_for_import_loop.simps) (simp add: Let_def)
      qed
    qed
  qed
qed

lemma wait_for_import_loop_errors:
  "fst (wait_for_import_loop net tok ws imp timeout start w) = Inl (Raise c m) \<Longrightarrow>
     c \<noteq> FileNotFoundError \<and> m \<noteq> [S ''File must be a .pbix file: '', S p]"
proof (induction net tok ws imp timeout start w rule: wait_for_import_loop.induct)
  case (1 net tok ws imp timeout start w)
  let ?e = "''groups/'' @ ws @ ''/imports/'' @ imp"
  obtain res w1 where req: "make_request net tok ''GET'' ?e w = (res, w1)"
    by (cases "make_request net tok ''GET'' ?e w")
  note err = make_request_attempts_errors[of net "api_request tok ''GET'' ?e" "[0..<max_retries]" w]
  show ?case
  proof (cases "clock w - start < timeout")
    case False
    with "1.prems" show ?thesis by (subst (asm) wait_for_import_loop.simps) auto
  next
    case True
    show ?thesis
    proof (cases res)
      case (Inl e)
      with True req "1.prems" have "e = Raise c m"
        by (subst (asm) wait_for_import_loop.simps) simp
      with Inl req err show ?thesis by (simp add: make_request_def)
    next
      case (Inr r)
      show ?thesis
      proof (cases "status_code r = 200 \<and> j_importState (json r) \<noteq> Some ''Succeeded'' \<and>
                    j_importState (json r) \<noteq> Some ''Failed''")
        case False
        with True req Inr "1.prems" show ?thesis
          by (subst (asm) wait_for_import_loop.simps) (auto simp: Let_def split: if_splits)
      next
        case pending: True
        have slept: "sleep check_interval w1 = Inr (w1\<lparr>clock := clock w1 + 5\<rparr>)"
          by (simp add: sleep_def check_interval_def)
        have "fst (wait_for_import_loop net tok ws imp timeout start
                 (w1\<lparr>clock := clock w1 + 5\<rparr>)) = Inl (Raise c m)"
          using "1.prems" True req Inr pending slept
          by (subst (asm) wait_for_import_loop.simps) (simp add: Let_def)
        then show ?thesis
          using "1.IH"[OF True req[symmetric] _ _ refl refl _ _ slept] Inr pending
          by simp
      qed
    qed
  qed
qed

lemma get_token_outcome:
  assumes "get_token net a w = (res, a1, w1)"
  shows "length (sent w) \<le> length (sent w1) \<and>
         (\<forall>e. res = Inl e \<longrightarrow>
            length (sent w) < length (sent w1) \<and> exn e \<in> {RequestException, Exception, KeyError})"
  using assms
  by (auto simp: get_token_def requests_request_def Let_def
      split: option.splits reply.splits if_splits)

lemma client_request_outcome:
  assumes "client_request net method endpoint ps pl a w = (res, a1, w1)"
  shows "length (sent w) < length (sent w1) \<and>
         (\<forall>e. res = Inl e \<longrightarrow> exn e \<in> {RequestException, Exception, KeyError})"
proof -
  obtain r0 a0 w0 where tok: "get_token net a w = (r0, a0, w0)"
    by (cases "get_token net a w")
  from get_token_outcome[OF tok] assms tok show ?thesis
    by (cases r0) (auto simp: client_request_def requests_request_def split: reply.splits)
qed

lemma standard_upload_outcome:
  assumes "standard_upload net p d ws nc sr a w = (res, a1, w1)"
  shows "length (sent w) < length (sent w1) \<and>
         (\<forall>e. res = Inl e \<longrightarrow> exn e \<in> {RequestException, Exception, KeyError})"
proof -
  obtain r0 a0 w0 where tok: "get_token net a w = (r0, a0, w0)"
    by (cases "get_token net a w")
  from get_token_outcome[OF tok] assms tok show ?thesis
    by (cases r0)
      (auto simp: standard_upload_def requests_request_def split: reply.splits if_splits)
qed

lemma import_large_pbix_outcome:
  assumes "import_large_pbix net p d ws nc a w = (res, a1, w1)"
  shows "length (sent w) < length (sent w1) \<and>
         (\<forall>e. res = Inl e \<longrightarrow> exn e \<in> {RequestException, Exception, KeyError})"
proof -
  let ?create = "client_request net ''POST''
      (endpoint_for ws ''/imports/createTemporaryUploadLocation'') [] NoBody a w"
  obtain r0 a0 w0 where first: "?create = (r0, a0, w0)"
    by (cases ?create)
  note o1 = client_request_outcome[OF first]
  show ?thesis
  proof (cases r0)
    case (Inl e)
    with assms first o1 show ?thesis
      by (auto simp: import_large_pbix_def)
  next
    case (Inr r)
    show ?thesis
    proof (cases "status_code r = 200")
      case False
      with assms first o1 Inr show ?thesis
        by (auto simp: import_large_pbix_def)
    next
      case ok: True
      show ?thesis
      proof (cases "j_url (json r)")
        case None
        with assms first o1 Inr ok show ?thesis
          by (auto simp: import_large_pbix_def)
      next
        case (Some upload_url)
        let ?put = "\<lparr>meth = ''PUT'', url = upload_url, params = [],
                          headers = [(''x-ms-blob-type'', ''BlockBlob''),
                                     (''Content-Type'', ''application/octet-stream'')],
                          payload = RawData p\<rparr>"
        let ?w2 = "w0\<lparr>sent := sent w0 @ [?put]\<rparr>"
        show ?thesis
        proof (cases "net (length (sent w0)) ?put")
          case (Fails x)
          with assms first o1 Inr ok Some show ?thesis
            by (auto simp: import_large_pbix_def requests_request_def)
        next
          case (Response b)
          show ?thesis
          proof (cases "status_code b = 200 \<or> status_code b = 201")
            case False
            with assms first o1 Inr ok Some Response show ?thesis
              by (auto simp: import_large_pbix_def requests_request_def)
          next
            case True
            let ?start = "client_request net ''POST'' (endpoint_for ws ''/imports'')
                                [(''datasetDisplayName'', d), (''nameConflict'', nc)]
                                (JsonFileUrl upload_url) a0 ?w2"
            obtain r3 a3 w3 where third: "?start = (r3, a3, w3)"
              by (cases ?start)
            note o3 = client_request_outcome[OF third]
            from assms first Inr ok Some Response True third
            have "(res, a1, w1) =
                (case r3 of Inl e \<Rightarrow> (Inl e, a3, w3)
                 | Inr response2 \<Rightarrow>
                     if status_code response2 \<notin> set [200, 201, 202] then
                       (Inl (Raise Exception
                              [S ''Import from blob failed: '', S (resp_text response2)]),
                        a3, w3)
                     else (Inr (json response2), a3, w3))"
              by (auto simp: import_large_pbix_def requests_request_def)
            with o1 o3 show ?thesis
              by (cases r3) (auto split: if_splits)
          qed
        qed
      qed
    qed
  qed
qed

lemma publish_report_after_validation:
  assumes "fs p \<noteq> None" and "lower (path_suffix p) = ''.pbix''"
  shows "length (sent w) < length (sent (snd (publish_report net fs tok p ws rn w))) \<and>
         (\<forall>e. fst (publish_report net fs tok p ws rn w) = Inl e \<longrightarrow>
            exn e \<noteq> FileNotFoundError \<and> parts e \<noteq> [S ''File must be a .pbix file: '', S p])"
proof -
  define name where "name = (case rn of None \<Rightarrow> path_stem p
                | Some n \<Rightarrow> if n = [] then path_stem p else n)"
  let ?rq = "upload_request tok p ws name"
  let ?w1 = "w\<lparr>sent := sent w @ [?rq]\<rparr>"
  show ?thesis
  proof (cases "net (length (sent w)) ?rq")
    case (Fails x)
    with assms show ?thesis
      by (auto simp: publish_report_def requests_request_def name_def)
  next
    case (Response r)
    show ?thesis
    proof (cases "status_code r = 200 \<or> status_code r = 202")
      case False
      with assms Response show ?thesis
        by (auto simp: publish_report_def requests_request_def name_def Let_def)
    next
      case True
      let ?imp = "case j_id (json r) of None \<Rightarrow> ''None'' | Some i \<Rightarrow> i"
      let ?poll = "publisher_wait_for_import net tok ws ?imp 600 ?w1"
      obtain res w2 where poll: "?poll = (res, w2)"
        by (cases ?poll)
      have grow: "length (sent ?w1) \<le> length (sent w2)"
        using wait_for_import_loop_sent[of ?w1 net tok ws ?imp 600 "clock ?w1"] poll
        by (simp add: publisher_wait_for_import_def)
      have errs: "exn e \<noteq> FileNotFoundError \<and> parts e \<noteq> [S ''File must be a .pbix file: '', S p]"
        if "res = Inl e" for e
        using wait_for_import_loop_errors[of net tok ws ?imp 600 "clock ?w1" ?w1 "exn e" "parts e" p]
          poll that
        by (simp add: publisher_wait_for_import_def)
      have "publish_report net fs tok p ws rn w =
          (case res of Inl e \<Rightarrow> (Inl e, w2)
           | Inr status \<Rightarrow>
               if j_importState status = Some ''Succeeded'' then (Inr status, w2)
               else (Inl (Raise Exception
                      [S ''Import failed: '', S (error_message status ''Unknown error'')]), w2))"
        using assms Response True poll
        by (auto simp: publish_report_def requests_request_def name_def Let_def)
      with grow errs show ?thesis
        by (cases res) auto
    qed
  qed
qed

text \<open>
  C10: for a path that does not exist both \<open>import_pbix\<close> and \<open>publish_report\<close> raise
  \<open>FileNotFoundError\<close>, and for an existing path whose lowered suffix is not \<open>.pbix\<close>
  they raise \<open>ValueError\<close>; in both cases the authenticator and the world are as before:
  no request is sent, nothing is logged, no time passes. For a path that passes both tests
  the call goes on to the network (at least one request is sent), and an exception it then
  raises is not one of the two of the validation.
\<close>

theorem publish_validates_file_first:
  "(fs p = None \<longrightarrow>
      import_pbix net fs p d wsid nc sr a w =
        (Inl (Raise FileNotFoundError [S ''PBIX file not found: '', S p]), a, w) \<and>
      publish_report net fs tok p ws rn w =
        (Inl (Raise FileNotFoundError [S ''File not found: '', S p]), w)) \<and>
   (fs p \<noteq> None \<and> lower (path_suffix p) \<noteq> ''.pbix'' \<longrightarrow>
      import_pbix net fs p d wsid nc sr a w =
        (Inl (Raise ValueError [S ''File must be a .pbix file'']), a, w) \<and>
      publish_report net fs tok p ws rn w =
        (Inl (Raise ValueError [S ''File must be a .pbix file: '', S p]), w)) \<and>
   (fs p \<noteq> None \<and> lower (path_suffix p) = ''.pbix'' \<longrightarrow>
      length (sent w) < length (sent (snd (snd (import_pbix net fs p d wsid nc sr a w)))) \<and>
      (\<forall>e. fst (import_pbix net fs p d wsid nc sr a w) = Inl e \<longrightarrow>
         exn e \<noteq> FileNotFoundError \<and> exn e \<noteq> ValueError) \<and>
      length (sent w) < length (sent (snd (publish_report net fs tok p ws rn w))) \<and>
      (\<forall>e. fst (publish_report net fs tok p ws rn w) = Inl e \<longrightarrow>
         exn e \<noteq> FileNotFoundError \<and> parts e \<noteq> [S ''File must be a .pbix file: '', S p]))"
proof (intro conjI impI)
  assume "fs p = None"
  then show "import_pbix net fs p d wsid nc sr a w =
        (Inl (Raise FileNotFoundError [S ''PBIX file not found: '', S p]), a, w)"
    and "publish_report net fs tok p ws rn w =
        (Inl (Raise FileNotFoundError [S ''File not found: '', S p]), w)"
    by (simp_all add: import_pbix_def publish_report_def)
next
  assume "fs p \<noteq> None \<and> lower (path_suffix p) \<noteq> ''.pbix''"
  then show "import_pbix net fs p d wsid nc sr a w =
        (Inl (Raise ValueError [S ''File must be a .pbix file'']), a, w)"
    and "publish_report net fs tok p ws rn w =
        (Inl (Raise ValueError [S ''File must be a .pbix file: '', S p]), w)"
    by (auto simp: import_pbix_def publish_report_def)
next
  assume ok: "fs p \<noteq> None \<and> lower (path_suffix p) = ''.pbix''"
  then obtain n where n: "fs p = Some n" by auto
  let ?large = "import_large_pbix net p d wsid nc a w"
  let ?standard = "standard_upload net p d wsid nc sr a w"
  have eq: "import_pbix net fs p d wsid nc sr a w =
      (if 1024 < real n / (1024 * 1024) then ?large else ?standard)"
    using ok n by (simp add: import_pbix_def)
  have large: "length (sent w) < length (sent (snd (snd ?large))) \<and>
      (\<forall>e. fst ?large = Inl e \<longrightarrow> exn e \<in> {RequestException, Exception, KeyError})"
    using import_large_pbix_outcome[of net p d wsid nc a w "fst ?large" "fst (snd ?large)"
        "snd (snd ?large)"] by simp
  have standard: "length (sent w) < length (sent (snd (snd ?standard))) \<and>
      (\<forall>e. fst ?standard = Inl e \<longrightarrow> exn e \<in> {RequestException, Exception, KeyError})"
    using standard_upload_outcome[of net p d wsid nc sr a w "fst ?standard" "fst (snd ?standard)"
        "snd (snd ?standard)"] by simp
  from eq large standard
  show "length (sent w) < length (sent (snd (snd (import_pbix net fs p d wsid nc sr a w))))"
    and "\<forall>e. fst (import_pbix net fs p d wsid nc sr a w) = Inl e \<longrightarrow>
         exn e \<noteq> FileNotFoundError \<and> exn e \<noteq> ValueError"
    by auto
  from ok publish_report_after_validation[of fs p w net tok ws rn]
  show "length (sent w) < length (sent (snd (publish_report net fs tok p ws rn w)))"
    and "\<forall>e. fst (publish_report net fs tok p ws rn w) = Inl e \<longrightarrow>
         exn e \<noteq> FileNotFoundError \<and> parts e \<noteq> [S ''File must be a .pbix file: '', S p]"
    by simp_all
qed

theorem publish_validates_file_first_witness:
  "import_pbix staging files ''missing.pbix'' ''Report'' None ''CreateOrOverwrite'' False
       auth_cached world0 =
     (Inl (Raise FileNotFoundError [S ''PBIX file not found: '', S ''missing.pbix'']),
      auth_cached, world0) \<and>
   publish_report staging files ''t'' ''notes.txt'' ''ws'' None world0 =
     (Inl (Raise ValueError [S ''File must be a .pbix file: '', S ''notes.txt'']), world0) \<and>
   0 < length (sent (snd (publish_report staging files ''t'' ''big.PBIX'' ''ws'' None world0)))"
proof -
  have f: "files ''missing.pbix'' = None" "files ''notes.txt'' \<noteq> None" "files ''big.PBIX'' \<noteq> None"
    by (simp_all add: files_def)
  have s: "lower (path_suffix ''notes.txt'') \<noteq> ''.pbix''"
    by (simp add: suffix_notes)
  show ?thesis
    using publish_validates_file_first[of files "''missing.pbix''" staging "''Report''" None
        "''CreateOrOverwrite''" False auth_cached world0 "''t''" "''ws''" None]
      publish_validates_file_first[of files "''notes.txt''" staging "''Report''" None
        "''CreateOrOverwrite''" False auth_cached world0 "''t''" "''ws''" None]
      publish_validates_file_first[of files "''big.PBIX''" staging "''Report''" None
        "''CreateOrOverwrite''" False auth_cached world0 "''t''" "''ws''" None]
      f s suffix_big
    by (simp add: world0_def)
qed

section \<open>Completion polling\<close>

lemma pending_Suc:
  assumes "pending net w rq (Suc k)"
  shows "\<exists>r. net (length (sent w)) rq = Response r \<and> status_code r = 200 \<and> \<not> terminal (json r)"
    and "pending net (w\<lparr>sent := sent w @ [rq], clock := c\<rparr>) rq k"
proof -
  from assms have "pending_reply (net (length (sent w) + 0) rq)"
    unfolding pending_def by blast
  then show "\<exists>r. net (length (sent w)) rq = Response r \<and> status_code r = 200 \<and> \<not> terminal (json r)"
    by (auto simp: pending_reply_def split: reply.splits)
  show "pending net (w\<lparr>sent := sent w @ [rq], clock := c\<rparr>) rq k"
    unfolding pending_def
  proof
    fix i assume "i \<in> {..<k}"
    then have "Suc i \<in> {..<Suc k}" by simp
    with assms have "pending_reply (net (length (sent w) + Suc i) rq)"
      unfolding pending_def by blast
    then show "pending_reply (net (length (sent (w\<lparr>sent := sent w @ [rq], clock := c\<rparr>)) + i) rq)"
      by simp
  qed
qed

lemma make_request_answered:
  assumes "net (length (sent w)) (status_request tok ws imp) = Response r"
    and "status_code r = 200"
  shows "make_request net tok ''GET'' (''groups/'' @ ws @ ''/imports/'' @ imp) w =
           (Inr r, w\<lparr>sent := sent w @ [status_request tok ws imp]\<rparr>)"
  using assms unfolding make_request_def max_retries_def upt_3 status_request_def
  by (intro make_request_attempts_returns) simp_all

lemma wait_for_import_loop_pending:
  assumes "pending net w (status_request tok ws imp) k"
    and "k = 0 \<or> clock w - start + check_interval * (int k - 1) < timeout"
  shows "wait_for_import_loop net tok ws imp timeout start w =
         wait_for_import_loop net tok ws imp timeout start
           (w\<lparr>sent := sent w @ replicate k (status_request tok ws imp),
              clock := clock w + check_interval * int k\<rparr>)"
  using assms
proof (induction k arbitrary: w)
  case 0
  show ?case by simp
next
  case (Suc k)
  let ?rq = "status_request tok ws imp"
  let ?w2 = "w\<lparr>sent := sent w @ [?rq], clock := clock w + check_interval\<rparr>"
  from pending_Suc(1)[OF Suc.prems(1)] obtain r
    where r: "net (length (sent w)) ?rq = Response r" "status_code r = 200" "\<not> terminal (json r)"
    by blast
  from Suc.prems(2) have run: "clock w - start < timeout"
    by (simp add: check_interval_def)
  have step: "wait_for_import_loop net tok ws imp timeout start w =
              wait_for_import_loop net tok ws imp timeout start ?w2"
    using run r(2,3) make_request_answered[of net w tok ws imp r, OF r(1,2)]
    by (subst wait_for_import_loop.simps)
       (simp add: Let_def terminal_def sleep_def check_interval_def del: wait_for_import_loop.simps)
  have timing: "k = 0 \<or> clock ?w2 - start + check_interval * (int k - 1) < timeout"
    using Suc.prems(2) by (simp add: algebra_simps)
  have "wait_for_import_loop net tok ws imp timeout start ?w2 =
        wait_for_import_loop net tok ws imp timeout start
          (?w2\<lparr>sent := sent ?w2 @ replicate k ?rq, clock := clock ?w2 + check_interval * int k\<rparr>)"
    by (rule Suc.IH[OF pending_Suc(2)[OF Suc.prems(1)] timing])
  also have "?w2\<lparr>sent := sent ?w2 @ replicate k ?rq, clock := clock ?w2 + check_interval * int k\<rparr> =
        w\<lparr>sent := sent w @ replicate (Suc k) ?rq, clock := clock w + check_interval * int (Suc k)\<rparr>"
    by (simp add: algebra_simps)
  finally show ?case using step by simp
qed

lemma publisher_wait_terminal:
  assumes "pending net w (status_request tok ws imp) k"
    and "check_interval * int k < timeout"
    and "net (length (sent w) + k) (status_request tok ws imp) = Response r"
    and "status_code r = 200" and "terminal (json r)"
  shows "publisher_wait_for_import net tok ws imp timeout w =
           (if j_importState (json r) = Some ''Succeeded'' then Inr (json r)
            else Inl (Raise Exception
                       [S ''Import failed: '', S (error_message (json r) ''Unknown error'')]),
            w\<lparr>sent := sent w @ replicate (Suc k) (status_request tok ws imp),
              clock := clock w + check_interval * int k\<rparr>)"
proof -
  let ?rq = "status_request tok ws imp"
  let ?wk = "w\<lparr>sent := sent w @ replicate k ?rq, clock := clock w + check_interval * int k\<rparr>"
  have timing: "k = 0 \<or> clock w - clock w + check_interval * (int k - 1) < timeout"
    using assms(2) by (simp add: check_interval_def)
  have at_k: "net (length (sent ?wk)) ?rq = Response r"
    using assms(3) by simp
  have "publisher_wait_for_import net tok ws imp timeout w =
        wait_for_import_loop net tok ws imp timeout (clock w) ?wk"
    unfolding publisher_wait_for_import_def
    by (rule wait_for_import_loop_pending[OF assms(1) timing])
  also have "\<dots> = (if j_importState (json r) = Some ''Succeeded'' then Inr (json r)
            else Inl (Raise Exception
                       [S ''Import failed: '', S (error_message (json r) ''Unknown error'')]),
            ?wk\<lparr>sent := sent ?wk @ [?rq]\<rparr>)"
    using assms(2,4,5) make_request_answered[of net ?wk tok ws imp r, OF at_k assms(4)]
    by (subst wait_for_import_loop.simps)
       (auto simp: Let_def terminal_def simp del: wait_for_import_loop.simps)
  also have "?wk\<lparr>sent := sent ?wk @ [?rq]\<rparr> =
       w\<lparr>sent := sent w @ replicate (Suc k) ?rq, clock := clock w + check_interval * int k\<rparr>"
    by (simp add: replicate_append_same)
  finally show ?thesis .
qed

lemma publisher_wait_timeout:
  assumes "pending net w (status_request tok ws imp) k"
    and "k = 0 \<or> check_interval * (int k - 1) < timeout"
    and "timeout \<le> check_interval * int k"
  shows "publisher_wait_for_import net tok ws imp timeout w =
           (Inl (Raise TimeoutError [S ''Import timed out after '', I timeout, S '' seconds'']),
            w\<lparr>sent := sent w @ replicate k (status_request tok ws imp),
              clock := clock w + check_interval * int k\<rparr>)"
proof -
  let ?rq = "status_request tok ws imp"
  let ?wk = "w\<lparr>sent := sent w @ replicate k ?rq, clock := clock w + check_interval * int k\<rparr>"
  have timing: "k = 0 \<or> clock w - clock w + check_interval * (int k - 1) < timeout"
    using assms(2) by simp
  have "publisher_wait_for_import net tok ws imp timeout w =
        wait_for_import_loop net tok ws imp timeout (clock w) ?wk"
    unfolding publisher_wait_for_import_def
    by (rule wait_for_import_loop_pending[OF assms(1) timing])
  also have "\<dots> = (Inl (Raise TimeoutError [S ''Import timed out after '', I timeout, S '' seconds'']), ?wk)"
    using assms(3)
    by (subst wait_for_import_loop.simps) (simp del: wait_for_import_loop.simps)
  finally show ?thesis .
qed

lemma get_import_status_answered:
  assumes "access_token a = Some t" and "t \<noteq> []" and "clock w < token_expiry a - 60"
    and "net (length (sent w)) (client_status_request t ws imp) = Response r"
    and "status_code r = 200"
  shows "get_import_status net imp ws a w =
           (Inr (json r), a, w\<lparr>sent := sent w @ [client_status_request t ws imp]\<rparr>)"
  using assms
  by (simp add: get_import_status_def client_request_def get_token_def cached_token_def
      requests_request_def client_status_request_def)

lemma get_import_status_clock:
  "get_import_status net imp ws a w = (res, a1, w1) \<Longrightarrow> clock w1 = clock w"
  by (auto simp: get_import_status_def client_request_def get_token_def requests_request_def
      Let_def split: option.splits reply.splits if_splits sum.splits prod.splits)

lemma client_wait_loop_pending:
  assumes "access_token a = Some t" and "t \<noteq> []" and "0 < p"
    and "clock w + p * int k < token_expiry a - 60"
    and "pending net w (client_status_request t ws imp) k"
    and "k = 0 \<or> clock w - start + p * (int k - 1) < timeout"
  shows "client_wait_loop net imp ws timeout p start a w =
         client_wait_loop net imp ws timeout p start a
           (w\<lparr>sent := sent w @ replicate k (client_status_request t ws imp),
              clock := clock w + p * int k\<rparr>)"
  using assms(4-6)
proof (induction k arbitrary: w)
  case 0
  show ?case by simp
next
  case (Suc k)
  let ?rq = "client_status_request t ws imp"
  let ?w2 = "w\<lparr>sent := sent w @ [?rq], clock := clock w + p\<rparr>"
  from pending_Suc(1)[OF Suc.prems(2)] obtain r
    where r: "net (length (sent w)) ?rq = Response r" "status_code r = 200" "\<not> terminal (json r)"
    by blast
  have nonneg: "0 \<le> p * int k" using assms(3) by simp
  have split: "p * int (Suc k) = p * int k + p"
    by (simp add: algebra_simps)
  from Suc.prems(3) nonneg have run: "clock w - start < timeout"
    by (simp add: algebra_simps)
  from Suc.prems(1) nonneg assms(3) have valid: "clock w < token_expiry a - 60"
    unfolding split by linarith
  have fetch: "get_import_status net imp ws a w = (Inr (json r), a, w\<lparr>sent := sent w @ [?rq]\<rparr>)"
    by (rule get_import_status_answered[where net = net and w = w, OF assms(1,2) valid r(1,2)])
  have state: "(case j_importState (json r) of None \<Rightarrow> ''Unknown'' | Some s \<Rightarrow> s) \<noteq> ''Succeeded''"
    "(case j_importState (json r) of None \<Rightarrow> ''Unknown'' | Some s \<Rightarrow> s) \<noteq> ''Failed''"
    using r(3) by (auto simp: terminal_def split: option.splits)
  have step: "client_wait_loop net imp ws timeout p start a w =
              client_wait_loop net imp ws timeout p start a ?w2"
    using run fetch state assms(3)
    by (subst client_wait_loop.simps) (simp add: Let_def sleep_def)
  have valid2: "clock ?w2 + p * int k < token_expiry a - 60"
    using Suc.prems(1) by (simp add: algebra_simps)
  have timing: "k = 0 \<or> clock ?w2 - start + p * (int k - 1) < timeout"
    using Suc.prems(3) by (simp add: algebra_simps)
  have "client_wait_loop net imp ws timeout p start a ?w2 =
        client_wait_loop net imp ws timeout p start a
          (?w2\<lparr>sent := sent ?w2 @ replicate k ?rq, clock := clock ?w2 + p * int k\<rparr>)"
    by (rule Suc.IH[OF valid2 pending_Suc(2)[OF Suc.prems(2)] timing])
  also have "?w2\<lparr>sent := sent ?w2 @ replicate k ?rq, clock := clock ?w2 + p * int k\<rparr> =
        w\<lparr>sent := sent w @ replicate (Suc k) ?rq, clock := clock w + p * int (Suc k)\<rparr>"
    by (simp add: algebra_simps)
  finally show ?case using step by simp
qed

lemma client_wait_terminal:
  assumes "access_token a = Some t" and "t \<noteq> []" and "0 < p"
    and "clock w + p * int k < token_expiry a - 60"
    and "pending net w (client_status_request t ws imp) k"
    and "p * int k < timeout"
    and "net (length (sent w) + k) (client_status_request t ws imp) = Response r"
    and "status_code r = 200" and "terminal (json r)"
  shows "wait_for_import net imp ws timeout p a w =
           Some (if j_importState (json r) = Some ''Succeeded'' then Inr (json r)
                 else Inl (Raise Exception [S ''Import failed: '', D (json r)]),
                 a,
                 w\<lparr>sent := sent w @ replicate (Suc k) (client_status_request t ws imp),
                   clock := clock w + p * int k\<rparr>)"
proof -
  let ?rq = "client_status_request t ws imp"
  let ?wk = "w\<lparr>sent := sent w @ replicate k ?rq, clock := clock w + p * int k\<rparr>"
  have nonneg: "0 \<le> p * int k" using assms(3) by simp
  have timing: "k = 0 \<or> clock w - clock w + p * (int k - 1) < timeout"
    using assms(6,3) by (simp add: algebra_simps)
  have at_k: "net (length (sent ?wk)) ?rq = Response r"
    using assms(7) by simp
  have valid: "clock ?wk < token_expiry a - 60"
    using assms(4) by simp
  have fetch: "get_import_status net imp ws a ?wk =
      (Inr (json r), a, ?wk\<lparr>sent := sent ?wk @ [?rq]\<rparr>)"
    by (rule get_import_status_answered[where net = net and w = "?wk",
          OF assms(1,2) valid at_k assms(8)])
  have "wait_for_import net imp ws timeout p a w =
        client_wait_loop net imp ws timeout p (clock w) a ?wk"
    unfolding wait_for_import_def
    by (rule client_wait_loop_pending[OF assms(1-5) timing])
  also have "\<dots> = Some (if j_importState (json r) = Some ''Succeeded'' then Inr (json r)
                 else Inl (Raise Exception [S ''Import failed: '', D (json r)]),
                 a, ?wk\<lparr>sent := sent ?wk @ [?rq]\<rparr>)"
    using assms(6,9) fetch
    by (subst client_wait_loop.simps) (auto simp: Let_def terminal_def)
  also have "?wk\<lparr>sent := sent ?wk @ [?rq]\<rparr> =
       w\<lparr>sent := sent w @ replicate (Suc k) ?rq, clock := clock w + p * int k\<rparr>"
    by (simp add: replicate_append_same)
  finally show ?thesis .
qed

lemma client_wait_timeout:
  assumes "access_token a = Some t" and "t \<noteq> []" and "0 < p"
    and "clock w + p * int k < token_expiry a - 60"
    and "pending net w (client_status_request t ws imp) k"
    and "k = 0 \<or> p * (int k - 1) < timeout"
    and "timeout \<le> p * int k"
  shows "wait_for_import net imp ws timeout p a w =
           Some (Inl (Raise TimeoutError [S ''Import timed out after '', I timeout, S '' seconds'']),
                 a,
                 w\<lparr>sent := sent w @ replicate k (client_status_request t ws imp),
                   clock := clock w + p * int k\<rparr>)"
proof -
  let ?rq = "client_status_request t ws imp"
  let ?wk = "w\<lparr>sent := sent w @ replicate k ?rq, clock := clock w + p * int k\<rparr>"
  have timing: "k = 0 \<or> clock w - clock w + p * (int k - 1) < timeout"
    using assms(6) by simp
  have "wait_for_import net imp ws timeout p a w =
        client_wait_loop net imp ws timeout p (clock w) a ?wk"
    unfolding wait_for_import_def
    by (rule client_wait_loop_pending[OF assms(1-5) timing])
  also have "\<dots> = Some (Inl (Raise TimeoutError
                 [S ''Import timed out after '', I timeout, S '' seconds'']), a, ?wk)"
    using assms(7)
    by (subst client_wait_loop.simps) simp
  finally show ?thesis .
qed

lemma wait_for_import_loop_poll:
  assumes "clock w - start < timeout"
    and "make_request net tok ''GET'' (''groups/'' @ ws @ ''/imports/'' @ imp) w = (Inr r, w1)"
    and "status_code r = 200"
  shows "wait_for_import_loop net tok ws imp timeout start w =
           (if j_importState (json r) = Some ''Succeeded'' then (Inr (json r), w1)
            else if j_importState (json r) = Some ''Failed'' then
              (Inl (Raise Exception
                     [S ''Import failed: '',
                      S (case j_error (json r) of Some (Some m) \<Rightarrow> m | _ \<Rightarrow> ''Unknown error'')]),
               w1)
            else wait_for_import_loop net tok ws imp timeout start (w1\<lparr>clock := clock w1 + 5\<rparr>))"
  using assms
  by (subst wait_for_import_loop.simps)
     (simp add: Let_def sleep_def check_interval_def error_message_def
        del: wait_for_import_loop.simps)

lemma wait_for_import_loop_late:
  assumes "\<not> clock w - start < timeout"
  shows "wait_for_import_loop net tok ws imp timeout start w =
           (Inl (Raise TimeoutError [S ''Import timed out after '', I timeout, S '' seconds'']), w)"
  using assms by (subst wait_for_import_loop.simps) (simp del: wait_for_import_loop.simps)

lemma make_request_never_retried:
  assumes "never_retried net"
  shows "\<exists>r. make_request net tok m e w = (Inr r, w\<lparr>sent := sent w @ [api_request tok m e]\<rparr>)"
proof (cases "net (length (sent w)) (api_request tok m e)")
  case (Response r)
  moreover from assms Response have "status_code r \<noteq> 429"
    unfolding never_retried_def
    by (metis reply.simps(5))
  ultimately have "make_request net tok m e w =
      (Inr r, w\<lparr>sent := sent w @ [api_request tok m e]\<rparr>)"
    unfolding make_request_def max_retries_def upt_3
    by (rule make_request_attempts_returns)
  then show ?thesis by blast
next
  case (Fails x)
  with assms show ?thesis
    unfolding never_retried_def by (metis reply.simps(6))
qed

lemma wait_for_import_loop_bound:
  "never_retried net \<Longrightarrow> clock w - start < max timeout 0 + 5 \<Longrightarrow>
     clock (snd (wait_for_import_loop net tok ws imp timeout start w)) - start
       < max timeout 0 + 5"
proof (induction net tok ws imp timeout start w rule: wait_for_import_loop.induct)
  case (1 net tok ws imp timeout start w)
  note never = "1.prems"(1)
  show ?case
  proof (cases "clock w - start < timeout")
    case False
    with "1.prems"(2) show ?thesis
      by (simp add: wait_for_import_loop_late del: wait_for_import_loop.simps)
  next
    case True
    let ?e = "''groups/'' @ ws @ ''/imports/'' @ imp"
    let ?w1 = "w\<lparr>sent := sent w @ [api_request tok ''GET'' ?e]\<rparr>"
    from make_request_never_retried[OF never, of tok "''GET''" ?e w]
    obtain r where req: "make_request net tok ''GET'' ?e w = (Inr r, ?w1)"
      by blast
    show ?thesis
    proof (cases "status_code r = 200 \<and> j_importState (json r) \<noteq> Some ''Succeeded'' \<and>
                  j_importState (json r) \<noteq> Some ''Failed''")
      case False
      with True req show ?thesis
        by (subst wait_for_import_loop.simps)
           (auto simp: Let_def simp del: wait_for_import_loop.simps)
    next
      case pending: True
      let ?w2 = "?w1\<lparr>clock := clock ?w1 + 5\<rparr>"
      have slept: "sleep check_interval ?w1 = Inr ?w2"
        by (simp add: sleep_def check_interval_def)
      have next_ok: "clock ?w2 - start < max timeout 0 + 5"
        using True by simp
      have "clock (snd (wait_for_import_loop net tok ws imp timeout start ?w2)) - start
              < max timeout 0 + 5"
        using "1.IH"[OF True req[symmetric] _ _ refl refl _ _ slept] never next_ok pending
        by simp
      moreover have "wait_for_import_loop net tok ws imp timeout start w =
            wait_for_import_loop net tok ws imp timeout start ?w2"
        using wait_for_import_loop_poll[OF True req] pending by simp
      ultimately show ?thesis by simp
    qed
  qed
qed

lemma client_wait_loop_poll:
  assumes "clock w - start < timeout"
    and "get_import_status net imp ws a w = (Inr status, a1, w1)"
    and "0 \<le> p"
  shows "client_wait_loop net imp ws timeout p start a w =
           (if j_importState status = Some ''Succeeded'' then Some (Inr status, a1, w1)
            else if j_importState status = Some ''Failed'' then
              Some (Inl (Raise Exception [S ''Import failed: '', D status]), a1, w1)
            else client_wait_loop net imp ws timeout p start a1 (w1\<lparr>clock := clock w1 + p\<rparr>))"
  using assms
  by (subst client_wait_loop.simps) (auto simp: Let_def sleep_def split: option.splits)

lemma client_wait_loop_late:
  assumes "\<not> clock w - start < timeout"
  shows "client_wait_loop net imp ws timeout p start a w =
           Some (Inl (Raise TimeoutError [S ''Import timed out after '', I timeout, S '' seconds'']),
                 a, w)"
  using assms by (subst client_wait_loop.simps) simp

text \<open>With a positive interval the loop returns, whatever the service answers, and less than
  \<open>timeout + poll_interval\<close> after its start.\<close>

lemma client_wait_loop_bound:
  assumes "0 < p"
  shows "clock w - start < max timeout 0 + p \<Longrightarrow>
         \<exists>res a' w'. client_wait_loop net imp ws timeout p start a w = Some (res, a', w') \<and>
                     clock w' - start < max timeout 0 + p"
proof (induction "nat (start + timeout - clock w)" arbitrary: a w rule: less_induct)
  case less
  show ?case
  proof (cases "clock w - start < timeout")
    case False
    with less.prems show ?thesis
      by (simp add: client_wait_loop_late)
  next
    case True
    obtain res a1 w1 where fetch: "get_import_status net imp ws a w = (res, a1, w1)"
      by (cases "get_import_status net imp ws a w")
    have same: "clock w1 = clock w"
      by (rule get_import_status_clock[OF fetch])
    let ?w2 = "w1\<lparr>clock := clock w1 + p\<rparr>"
    have smaller: "nat (start + timeout - clock ?w2) < nat (start + timeout - clock w)"
      using True same assms by simp
    have next_ok: "clock ?w2 - start < max timeout 0 + p"
      using True same by simp
    note IH = less.hyps[OF smaller next_ok, of a1]
    have here: "clock w1 - start < max timeout 0 + p"
      using True same assms by simp
    show ?thesis
    proof (cases res)
      case (Inl e)
      with True fetch here show ?thesis
        by (subst client_wait_loop.simps) simp
    next
      case (Inr status)
      with client_wait_loop_poll[OF True _ less_imp_le[OF assms], of net imp ws a status a1 w1]
        fetch here IH
      show ?thesis by auto
    qed
  qed
qed

text \<open>
  C1, as the specification has it, lets the polling end no later than
  \<open>timeout + poll_interval\<close> after its start. In publish_powerbi_report.py a poll is a call
  of \<open>_make_request\<close>, which sleeps when it is answered 429. With the timeout of 600
  seconds, a first answer 429 with \<open>Retry-After: 1000\<close> and the state \<open>Importing\<close>
  afterwards, \<open>TimeoutError\<close> is raised 1005 seconds after the start.
\<close>

theorem polling_outlasts_timeout_and_interval:
  "fst (publisher_wait_for_import slow_down ''t'' ''ws'' ''imp-1'' 600 world0) =
     Inl (Raise TimeoutError [S ''Import timed out after '', I 600, S '' seconds'']) \<and>
   clock (snd (publisher_wait_for_import slow_down ''t'' ''ws'' ''imp-1'' 600 world0)) -
     clock world0 = 1005"
  by (simp add: publisher_wait_for_import_def make_request_def max_retries_def upt_3
      requests_request_def slow_down_def rate_limited_def status_response_def
      rate_limit_wait_def sleep_def warning_def world0_def check_interval_def empty_body_def)

text \<open>
  C1 (amended). At any poll that starts before the timeout and is answered 200, both loops
  end at once, with no further sleep, when the state is \<open>Succeeded\<close> (returning the whole
  status record) or \<open>Failed\<close> (raising an exception with the remote error message, in
  powerbi_publisher.py with the whole status record); for every other state, a missing one
  included, they sleep the interval (5 seconds) and poll again; and at a loop test at or
  after the timeout they raise \<open>TimeoutError\<close>. So when the first \<open>k\<close> polls are pending
  (in publish_powerbi_report.py with no retry, in powerbi_publisher.py while the cached
  token stays valid), a terminal state at the next poll ends the call \<open>5 * k\<close> seconds after
  the start, and a timeout reached after the \<open>k\<close>-th sleep raises \<open>TimeoutError\<close> after
  exactly \<open>k\<close> requests. On the clock of the model, which only \<open>time.sleep\<close> advances:
  \<open>wait_for_import\<close> of powerbi_publisher.py with a positive interval always returns, less
  than \<open>timeout + poll_interval\<close> after its start, whatever the service answers;
  \<open>_wait_for_import\<close> of publish_powerbi_report.py ends less than \<open>timeout + 5\<close> after its
  start when every request gets a response that is not a 429, so that \<open>_make_request\<close>
  never sleeps.
\<close>

theorem import_polling:
  "(clock w - start < timeout \<and>
    make_request net tok ''GET'' (''groups/'' @ ws @ ''/imports/'' @ imp) w = (Inr r, w1) \<and>
    status_code r = 200 \<longrightarrow>
      wait_for_import_loop net tok ws imp timeout start w =
        (if j_importState (json r) = Some ''Succeeded'' then (Inr (json r), w1)
         else if j_importState (json r) = Some ''Failed'' then
           (Inl (Raise Exception
                  [S ''Import failed: '',
                   S (case j_error (json r) of Some (Some m) \<Rightarrow> m | _ \<Rightarrow> ''Unknown error'')]),
            w1)
         else wait_for_import_loop net tok ws imp timeout start (w1\<lparr>clock := clock w1 + 5\<rparr>))) \<and>
   (\<not> clock w - start < timeout \<longrightarrow>
      wait_for_import_loop net tok ws imp timeout start w =
        (Inl (Raise TimeoutError [S ''Import timed out after '', I timeout, S '' seconds'']), w)) \<and>
   (pending net w (status_request tok ws imp) k \<longrightarrow>
      (5 * int k < timeout \<and>
       net (length (sent w) + k) (status_request tok ws imp) = Response r \<and>
       status_code r = 200 \<and> terminal (json r) \<longrightarrow>
         publisher_wait_for_import net tok ws imp timeout w =
           (if j_importState (json r) = Some ''Succeeded'' then Inr (json r)
            else Inl (Raise Exception
                       [S ''Import failed: '',
                        S (case j_error (json r) of Some (Some m) \<Rightarrow> m | _ \<Rightarrow> ''Unknown error'')]),
            w\<lparr>sent := sent w @ replicate (Suc k) (status_request tok ws imp),
              clock := clock w + 5 * int k\<rparr>)) \<and>
      ((k = 0 \<or> 5 * (int k - 1) < timeout) \<and> timeout \<le> 5 * int k \<longrightarrow>
         publisher_wait_for_import net tok ws imp timeout w =
           (Inl (Raise TimeoutError [S ''Import timed out after '', I timeout, S '' seconds'']),
            w\<lparr>sent := sent w @ replicate k (status_request tok ws imp),
              clock := clock w + 5 * int k\<rparr>))) \<and>
   (never_retried net \<longrightarrow>
      clock (snd (publisher_wait_for_import net tok ws imp timeout w)) - clock w
        < max timeout 0 + 5) \<and>
   (clock w - start < timeout \<and> get_import_status net imp cws a w = (Inr status, a1, w1) \<and>
    0 \<le> p \<longrightarrow>
      client_wait_loop net imp cws timeout p start a w =
        (if j_importState status = Some ''Succeeded'' then Some (Inr status, a1, w1)
         else if j_importState status = Some ''Failed'' then
           Some (Inl (Raise Exception [S ''Import failed: '', D status]), a1, w1)
         else client_wait_loop net imp cws timeout p start a1 (w1\<lparr>clock := clock w1 + p\<rparr>))) \<and>
   (\<not> clock w - start < timeout \<longrightarrow>
      client_wait_loop net imp cws timeout p start a w =
        Some (Inl (Raise TimeoutError [S ''Import timed out after '', I timeout, S '' seconds'']),
              a, w)) \<and>
   (access_token a = Some t \<and> t \<noteq> [] \<and> 0 < p \<and> clock w + p * int k < token_expiry a - 60 \<and>
    pending net w (client_status_request t cws imp) k \<longrightarrow>
      (p * int k < timeout \<and>
       net (length (sent w) + k) (client_status_request t cws imp) = Response r \<and>
       status_code r = 200 \<and> terminal (json r) \<longrightarrow>
         wait_for_import net imp cws timeout p a w =
           Some (if j_importState (json r) = Some ''Succeeded'' then Inr (json r)
                 else Inl (Raise Exception [S ''Import failed: '', D (json r)]),
                 a,
                 w\<lparr>sent := sent w @ replicate (Suc k) (client_status_request t cws imp),
                   clock := clock w + p * int k\<rparr>)) \<and>
      ((k = 0 \<or> p * (int k - 1) < timeout) \<and> timeout \<le> p * int k \<longrightarrow>
         wait_for_import net imp cws timeout p a w =
           Some (Inl (Raise TimeoutError [S ''Import timed out after '', I timeout, S '' seconds'']),
                 a,
                 w\<lparr>sent := sent w @ replicate k (client_status_request t cws imp),
                   clock := clock w + p * int k\<rparr>))) \<and>
   (0 < p \<longrightarrow>
      (\<exists>res a' w'. wait_for_import net imp cws timeout p a w = Some (res, a', w') \<and>
                   clock w' - clock w < max timeout 0 + p))"
proof -
  have one_poll: "wait_for_import_loop net tok ws imp timeout start w =
        (if j_importState (json r) = Some ''Succeeded'' then (Inr (json r), w1)
         else if j_importState (json r) = Some ''Failed'' then
           (Inl (Raise Exception
                  [S ''Import failed: '',
                   S (case j_error (json r) of Some (Some m) \<Rightarrow> m | _ \<Rightarrow> ''Unknown error'')]),
            w1)
         else wait_for_import_loop net tok ws imp timeout start (w1\<lparr>clock := clock w1 + 5\<rparr>))"
    if "clock w - start < timeout \<and>
        make_request net tok ''GET'' (''groups/'' @ ws @ ''/imports/'' @ imp) w = (Inr r, w1) \<and>
        status_code r = 200"
    using that wait_for_import_loop_poll[of w start timeout net tok ws imp r w1] by blast
  have late: "wait_for_import_loop net tok ws imp timeout start w =
        (Inl (Raise TimeoutError [S ''Import timed out after '', I timeout, S '' seconds'']), w)"
    if "\<not> clock w - start < timeout"
    using that by (rule wait_for_import_loop_late)
  have ends: "publisher_wait_for_import net tok ws imp timeout w =
           (if j_importState (json r) = Some ''Succeeded'' then Inr (json r)
            else Inl (Raise Exception
                       [S ''Import failed: '',
                        S (case j_error (json r) of Some (Some m) \<Rightarrow> m | _ \<Rightarrow> ''Unknown error'')]),
            w\<lparr>sent := sent w @ replicate (Suc k) (status_request tok ws imp),
              clock := clock w + 5 * int k\<rparr>)"
    if "pending net w (status_request tok ws imp) k"
      and "5 * int k < timeout \<and>
       net (length (sent w) + k) (status_request tok ws imp) = Response r \<and>
       status_code r = 200 \<and> terminal (json r)"
    using that publisher_wait_terminal[of net w tok ws imp k timeout r]
    by (simp add: check_interval_def error_message_def)
  have times_out: "publisher_wait_for_import net tok ws imp timeout w =
           (Inl (Raise TimeoutError [S ''Import timed out after '', I timeout, S '' seconds'']),
            w\<lparr>sent := sent w @ replicate k (status_request tok ws imp),
              clock := clock w + 5 * int k\<rparr>)"
    if "pending net w (status_request tok ws imp) k"
      and "(k = 0 \<or> 5 * (int k - 1) < timeout) \<and> timeout \<le> 5 * int k"
    using that publisher_wait_timeout[of net w tok ws imp k timeout]
    by (simp add: check_interval_def)
  have bound: "clock (snd (publisher_wait_for_import net tok ws imp timeout w)) - clock w
        < max timeout 0 + 5"
    if "never_retried net"
    using wait_for_import_loop_bound[OF that, of w "clock w" timeout tok ws imp]
    by (simp add: publisher_wait_for_import_def)
  have client_poll: "client_wait_loop net imp cws timeout p start a w =
        (if j_importState status = Some ''Succeeded'' then Some (Inr status, a1, w1)
         else if j_importState status = Some ''Failed'' then
           Some (Inl (Raise Exception [S ''Import failed: '', D status]), a1, w1)
         else client_wait_loop net imp cws timeout p start a1 (w1\<lparr>clock := clock w1 + p\<rparr>))"
    if "clock w - start < timeout \<and> get_import_status net imp cws a w = (Inr status, a1, w1) \<and>
        0 \<le> p"
    using that client_wait_loop_poll[of w start timeout net imp cws a status a1 w1 p] by blast
  have client_late: "client_wait_loop net imp cws timeout p start a w =
        Some (Inl (Raise TimeoutError [S ''Import timed out after '', I timeout, S '' seconds'']),
              a, w)"
    if "\<not> clock w - start < timeout"
    using that by (rule client_wait_loop_late)
  have client_ends: "wait_for_import net imp cws timeout p a w =
           Some (if j_importState (json r) = Some ''Succeeded'' then Inr (json r)
                 else Inl (Raise Exception [S ''Import failed: '', D (json r)]),
                 a,
                 w\<lparr>sent := sent w @ replicate (Suc k) (client_status_request t cws imp),
                   clock := clock w + p * int k\<rparr>)"
    if "access_token a = Some t \<and> t \<noteq> [] \<and> 0 < p \<and> clock w + p * int k < token_expiry a - 60 \<and>
        pending net w (client_status_request t cws imp) k"
      and "p * int k < timeout \<and>
       net (length (sent w) + k) (client_status_request t cws imp) = Response r \<and>
       status_code r = 200 \<and> terminal (json r)"
    using that client_wait_terminal[of a t p w k net cws imp timeout r] by blast
  have client_times_out: "wait_for_import net imp cws timeout p a w =
           Some (Inl (Raise TimeoutError [S ''Import timed out after '', I timeout, S '' seconds'']),
                 a,
                 w\<lparr>sent := sent w @ replicate k (client_status_request t cws imp),
                   clock := clock w + p * int k\<rparr>)"
    if "access_token a = Some t \<and> t \<noteq> [] \<and> 0 < p \<and> clock w + p * int k < token_expiry a - 60 \<and>
        pending net w (client_status_request t cws imp) k"
      and "(k = 0 \<or> p * (int k - 1) < timeout) \<and> timeout \<le> p * int k"
    using that client_wait_timeout[of a t p w k net cws imp timeout] by blast
  have client_bound: "\<exists>res a' w'. wait_for_import net imp cws timeout p a w = Some (res, a', w') \<and>
                   clock w' - clock w < max timeout 0 + p"
    if "0 < p"
    using client_wait_loop_bound[OF that, of w "clock w" timeout net imp cws a] that
    by (simp add: wait_for_import_def)
  show ?thesis
    apply (intro conjI impI)
    subgoal by (erule one_poll)
    subgoal by (erule late)
    subgoal by (erule (1) ends)
    subgoal by (erule (1) times_out)
    subgoal by (erule bound)
    subgoal by (erule client_poll)
    subgoal by (erule client_late)
    subgoal by (erule (1) client_ends)
    subgoal by (erule (1) client_times_out)
    subgoal by (erule client_bound)
    done
qed

theorem import_polling_witness:
  "publisher_wait_for_import importing_once ''t'' ''ws'' ''imp-1'' 600 world0 =
     (Inr (json (status_response (Some ''Succeeded''))),
      \<lparr>clock = 5,
       sent = [status_request ''t'' ''ws'' ''imp-1'', status_request ''t'' ''ws'' ''imp-1''],
       logged = []\<rparr>) \<and>
   wait_for_import importing_once ''imp-1'' (Some ''ws'') 600 5 auth_cached world0 =
     Some (Inr (json (status_response (Some ''Succeeded''))), auth_cached,
           \<lparr>clock = 5,
            sent = [client_status_request ''tok'' (Some ''ws'') ''imp-1'',
                    client_status_request ''tok'' (Some ''ws'') ''imp-1''],
            logged = []\<rparr>)"
proof -
  have p1: "pending importing_once world0 (status_request ''t'' ''ws'' ''imp-1'') 1"
    and p2: "pending importing_once world0 (client_status_request ''tok'' (Some ''ws'') ''imp-1'') 1"
    by (simp_all add: pending_def pending_reply_def importing_once_def status_response_def
        terminal_def empty_body_def world0_def)
  have t: "terminal (json (status_response (Some ''Succeeded'')))"
    by (simp add: terminal_def status_response_def)
  show ?thesis
    using import_polling[where net = importing_once and w = world0 and tok = "''t''"
        and ws = "''ws''" and imp = "''imp-1''" and k = 1 and timeout = 600
        and r = "status_response (Some ''Succeeded'')" and a = auth_cached and t = "''tok''"
        and p = 5 and cws = "Some ''ws''"] p1 p2 t
    by (simp add: importing_once_def world0_def auth_cached_def auth0_def
        status_response_def)
qed

end
